theory Spec2Isabelle
  imports Complex_Main "HOL-Library.Char_ord" "HOL-Library.List_Lexorder"
begin

section \<open>Values of the JavaScript runtime\<close>

text \<open>
  The TypeScript interfaces of the repository are erased at run time: what the code
  handles after \<^verbatim>\<open>JSON.parse\<close> is a JSON value. An object is an association list
  holding one pair per key (the parser has already resolved duplicate keys);
  \<^verbatim>\<open>undefined\<close> is \<open>None\<close> in the type \<open>json option\<close>. Numbers are reals: the code
  only compares them and takes maxima and minima, which are exact on floats.
\<close>

datatype json =
    JNull
  | JBool bool
  | JNum real
  | JStr string
  | JArr "json list"
  | JObj "(string \<times> json) list"

text \<open>Optional chaining \<^verbatim>\<open>v?.k\<close>: undefined on null and undefined, the property otherwise.
  The keys read by the code are no built-in property of a primitive or an array.\<close>

fun opt_chain :: "json option \<Rightarrow> string \<Rightarrow> json option" where
  "opt_chain None k = None"
| "opt_chain (Some JNull) k = None"
| "opt_chain (Some (JObj kvs)) k = map_of kvs k"
| "opt_chain (Some v) k = None"

text \<open>\<^verbatim>\<open>if (v)\<close>, \<^verbatim>\<open>v || d\<close>, \<^verbatim>\<open>v && e\<close>: the values that count as true.\<close>

fun truthy :: "json \<Rightarrow> bool" where
  "truthy JNull = False"
| "truthy (JBool b) = b"
| "truthy (JNum n) = (n \<noteq> 0)"
| "truthy (JStr s) = (s \<noteq> [])"
| "truthy v = True"

text \<open>
  The conversions between values. What a number is written as, and which number a string
  stands for, belong to the runtime and are parameters here. A value is converted to a
  string in a template literal and when it is used as a property key: an array gives its
  elements joined by commas, \<^verbatim>\<open>null\<close> among them as the empty string, an object gives
  \<^verbatim>\<open>[object Object]\<close>. The conversion is taken to succeed, as it does for every value in
  which no object has a property of its own named \<^verbatim>\<open>toString\<close> or \<^verbatim>\<open>toLocaleString\<close>.
\<close>

datatype js_number = NotANumber | Number real | PlusInfinity | MinusInfinity

record conversions =
  number_string :: "real \<Rightarrow> string"
  string_number :: "string \<Rightarrow> js_number"

fun join_commas :: "string list \<Rightarrow> string" where
  "join_commas [] = []"
| "join_commas [s] = s"
| "join_commas (s # ss) = s @ '','' @ join_commas ss"

fun to_string :: "(real \<Rightarrow> string) \<Rightarrow> json \<Rightarrow> string" where
  "to_string f JNull = ''null''"
| "to_string f (JBool b) = (if b then ''true'' else ''false'')"
| "to_string f (JNum n) = f n"
| "to_string f (JStr s) = s"
| "to_string f (JArr xs) = join_commas (map (\<lambda>x. if x = JNull then [] else to_string f x) xs)"
| "to_string f (JObj kvs) = ''[object Object]''"

text \<open>A value used as a property key, \<^verbatim>\<open>o[v]\<close>.\<close>

definition property_key :: "conversions \<Rightarrow> json option \<Rightarrow> string" where
  "property_key cv v =
     (case v of None \<Rightarrow> ''undefined'' | Some u \<Rightarrow> to_string (number_string cv) u)"

text \<open>A value compared with a number, \<^verbatim>\<open>v >= 80\<close> or \<^verbatim>\<open>v > 0\<close>, is converted to a number
  first; an array and an object go through their string. A comparison with \<^verbatim>\<open>NaN\<close> is
  false.\<close>

fun to_number :: "conversions \<Rightarrow> json option \<Rightarrow> js_number" where
  "to_number cv None = NotANumber"
| "to_number cv (Some JNull) = Number 0"
| "to_number cv (Some (JBool b)) = Number (if b then 1 else 0)"
| "to_number cv (Some (JNum n)) = Number n"
| "to_number cv (Some (JStr s)) = string_number cv s"
| "to_number cv (Some (JArr xs)) = string_number cv (to_string (number_string cv) (JArr xs))"
| "to_number cv (Some (JObj kvs)) = string_number cv ''[object Object]''"

fun at_least :: "js_number \<Rightarrow> real \<Rightarrow> bool" where
  "at_least (Number n) b = (n \<ge> b)"
| "at_least PlusInfinity b = True"
| "at_least v b = False"

fun greater :: "js_number \<Rightarrow> real \<Rightarrow> bool" where
  "greater (Number n) b = (n > b)"
| "greater PlusInfinity b = True"
| "greater v b = False"

text \<open>\<^verbatim>\<open>v.length\<close> of a value that is neither null nor undefined: the number of elements of
  an array, of characters of a string, the property of that name of an object.\<close>

fun js_length :: "json \<Rightarrow> json option" where
  "js_length (JArr xs) = Some (JNum (real (length xs)))"
| "js_length (JStr s) = Some (JNum (real (length s)))"
| "js_length (JObj kvs) = map_of kvs ''length''"
| "js_length v = None"

definition startsWith :: "string \<Rightarrow> string \<Rightarrow> bool" where
  "startsWith s p = (take (length p) s = p)"

definition endsWith :: "string \<Rightarrow> string \<Rightarrow> bool" where
  "endsWith s p = (length p \<le> length s \<and> drop (length s - length p) s = p)"

section \<open>auto-trader.ts: the cycle scheduler\<close>

record AutoTraderConfig =
  intervalMinutes :: real
  chartCaptureArgs :: "string list"
  visionAiArgs :: "string list"
  maxRetries :: nat
  retryDelayMs :: nat

text \<open>
  What \<^verbatim>\<open>extractNextCheckInterval\<close> sees of the directory \<^verbatim>\<open>analysis-results\<close>:
  whether it exists, what \<^verbatim>\<open>readdirSync\<close> lists (\<open>None\<close> when it throws), and for each
  file name the value of \<^verbatim>\<open>JSON.parse(fs.readFileSync(...))\<close> (\<open>None\<close> when reading or
  parsing throws).
\<close>

record analysis_dir =
  dir_exists :: bool
  dir_entries :: "string list option"
  file_json :: "string \<Rightarrow> json option"

definition MIN_INTERVAL :: real where
  "MIN_INTERVAL = 2"

definition MAX_INTERVAL :: real where
  "MAX_INTERVAL = 60"

text \<open>\<^verbatim>\<open>readdirSync(dir).filter(...).sort().reverse()\<close>: the default sort of JavaScript
  orders strings by their code units, as the lexicographic order on \<open>string\<close> does.\<close>

definition analysis_files :: "string list \<Rightarrow> string list" where
  "analysis_files entries =
     rev (sort (filter (\<lambda>file. startsWith file ''analysis-'' \<and> endsWith file ''.json'') entries))"

definition extractNextCheckInterval :: "analysis_dir \<Rightarrow> real \<Rightarrow> real" where
  "extractNextCheckInterval d defaultInterval =
     (if \<not> dir_exists d then defaultInterval
      else case dir_entries d of
        None \<Rightarrow> defaultInterval
      | Some entries \<Rightarrow>
         (case analysis_files entries of
            [] \<Rightarrow> defaultInterval
          | latestFilename # _ \<Rightarrow>
             if latestFilename = [] then defaultInterval
             else case file_json d latestFilename of
               None \<Rightarrow> defaultInterval
             | Some analysisData \<Rightarrow>
                (case opt_chain (opt_chain (opt_chain (Some analysisData) ''analysisData'')
                        ''finalVerdict'') ''nextCheckMinutes'' of
                   Some (JNum nextCheckMinutes) \<Rightarrow>
                     max MIN_INTERVAL (min MAX_INTERVAL nextCheckMinutes)
                 | _ \<Rightarrow> defaultInterval)))"

text \<open>
  One cycle of the scheduler runs two shell commands through \<^verbatim>\<open>executeWithRetry\<close>.
  The environment of a cycle says, for each command, whether its \<open>k\<close>-th attempt exits
  with code 0, whether \<^verbatim>\<open>runAnalysisCycle\<close> raises (the \<^verbatim>\<open>catch\<close> of the loop), and what
  the result directory holds when the cycle is over.
\<close>

record cycle_env =
  chart_exit :: "nat \<Rightarrow> bool"
  vision_exit :: "nat \<Rightarrow> bool"
  cycle_throws :: bool
  results_dir :: analysis_dir

text \<open>\<^verbatim>\<open>for (let attempt = 1; attempt <= maxRetries; attempt++)\<close>, with the number of
  attempts left as the recursion argument.\<close>

fun retry_from :: "(nat \<Rightarrow> bool) \<Rightarrow> nat \<Rightarrow> nat \<Rightarrow> bool" where
  "retry_from run attempt 0 = False"
| "retry_from run attempt (Suc remaining) =
     (if run attempt then True else retry_from run (Suc attempt) remaining)"

definition executeWithRetry :: "(nat \<Rightarrow> bool) \<Rightarrow> nat \<Rightarrow> bool" where
  "executeWithRetry run maxRetries' = retry_from run 1 maxRetries'"

definition runAnalysisCycle :: "AutoTraderConfig \<Rightarrow> cycle_env \<Rightarrow> bool" where
  "runAnalysisCycle config e =
     (if \<not> executeWithRetry (chart_exit e) (maxRetries config) then False
      else if \<not> executeWithRetry (vision_exit e) (maxRetries config) then False
      else True)"

record trader_flags =
  has_api_key :: bool
  continuous :: bool
  once :: bool

text \<open>The local variables of \<^verbatim>\<open>runAutoTrader\<close>, with a log of the cycle numbers handed
  to \<^verbatim>\<open>runAnalysisCycle\<close> and of the minutes handed to \<^verbatim>\<open>waitMinutes\<close>.\<close>

record trader_state =
  cycleNumber :: nat
  consecutiveFailures :: nat
  cyclesStarted :: "nat list"
  waited :: "real list"

datatype loop_status = Running | SingleCycleDone | TooManyFailures | MissingApiKey

definition maxConsecutiveFailures :: nat where
  "maxConsecutiveFailures = 3"

text \<open>The body of \<^verbatim>\<open>while (true)\<close>: \<open>Running\<close> when control reaches the next iteration,
  another status at a \<^verbatim>\<open>break\<close>.\<close>

definition trader_step ::
  "AutoTraderConfig \<Rightarrow> trader_flags \<Rightarrow> trader_state \<Rightarrow> cycle_env \<Rightarrow> loop_status \<times> trader_state" where
  "trader_step config fl st e =
     (let st1 = st\<lparr>cyclesStarted := cyclesStarted st @ [cycleNumber st]\<rparr> in
      if cycle_throws e then
        (let st2 = st1\<lparr>consecutiveFailures := consecutiveFailures st1 + 1\<rparr> in
         if consecutiveFailures st2 \<ge> maxConsecutiveFailures then (TooManyFailures, st2)
         else (Running, st2\<lparr>waited := waited st2 @ [5]\<rparr>))
      else if runAnalysisCycle config e then
        (let st2 = st1\<lparr>consecutiveFailures := 0\<rparr>;
             nextInterval = extractNextCheckInterval (results_dir e) (intervalMinutes config) in
         if cycleNumber st2 > 1 \<or> continuous fl then
           (Running, st2\<lparr>waited := waited st2 @ [nextInterval], cycleNumber := cycleNumber st2 + 1\<rparr>)
         else if \<not> once fl then
           (Running, st2\<lparr>waited := waited st2 @ [nextInterval], cycleNumber := cycleNumber st2 + 1\<rparr>)
         else (SingleCycleDone, st2))
      else
        (let st2 = st1\<lparr>consecutiveFailures := consecutiveFailures st1 + 1\<rparr>;
             retryWait = min (intervalMinutes config) 5 in
         if consecutiveFailures st2 \<ge> maxConsecutiveFailures then (TooManyFailures, st2)
         else (Running, st2\<lparr>waited := waited st2 @ [retryWait], cycleNumber := cycleNumber st2 + 1\<rparr>)))"

text \<open>The loop never ends by itself: it is run on the environments of the cycles that
  have happened so far, and \<open>Running\<close> says that it waits for the next one.\<close>

fun trader_loop ::
  "AutoTraderConfig \<Rightarrow> trader_flags \<Rightarrow> trader_state \<Rightarrow> cycle_env list \<Rightarrow> loop_status \<times> trader_state" where
  "trader_loop config fl st [] = (Running, st)"
| "trader_loop config fl st (e # es) =
     (case trader_step config fl st e of
        (Running, st') \<Rightarrow> trader_loop config fl st' es
      | stopped \<Rightarrow> stopped)"

definition initial_state :: trader_state where
  "initial_state = \<lparr>cycleNumber = 1, consecutiveFailures = 0, cyclesStarted = [], waited = []\<rparr>"

definition runAutoTrader ::
  "AutoTraderConfig \<Rightarrow> trader_flags \<Rightarrow> cycle_env list \<Rightarrow> loop_status \<times> trader_state" where
  "runAutoTrader config fl envs =
     (if \<not> has_api_key fl then (MissingApiKey, initial_state)
      else trader_loop config fl initial_state envs)"

definition cycle_failed :: "AutoTraderConfig \<Rightarrow> cycle_env \<Rightarrow> bool" where
  "cycle_failed config e = (cycle_throws e \<or> \<not> runAnalysisCycle config e)"

section \<open>image-cropping.ts: cropping with a shared configuration object\<close>

text \<open>
  \<^verbatim>\<open>CropConfig\<close>; its fields \<^verbatim>\<open>x\<close>, \<^verbatim>\<open>y\<close>, \<^verbatim>\<open>width\<close> and \<^verbatim>\<open>height\<close> carry the prefix
  \<open>crop_\<close> here. The numbers come from \<^verbatim>\<open>parseInt\<close> or from integer literals.
\<close>

record CropConfig =
  enabled :: bool
  crop_x :: int
  crop_y :: int
  crop_width :: int
  crop_height :: int
  outputSuffix :: "string option"

text \<open>
  \<^verbatim>\<open>path.join\<close> of two strings, as Node defines it for POSIX paths: the parts that are
  not empty are joined by a slash and the result is normalised: empty segments and
  \<^verbatim>\<open>.\<close> are dropped, \<^verbatim>\<open>..\<close> removes the segment before it (and is kept in a relative
  path that has none), a trailing slash stays.
\<close>

fun split_path :: "string \<Rightarrow> string list" where
  "split_path [] = [[]]"
| "split_path (c # cs) =
     (if c = CHR ''/'' then [] # split_path cs
      else (case split_path cs of seg # segs \<Rightarrow> (c # seg) # segs | [] \<Rightarrow> [[c]]))"

fun normalize_segments :: "bool \<Rightarrow> string list \<Rightarrow> string list \<Rightarrow> string list" where
  "normalize_segments allowAboveRoot kept [] = kept"
| "normalize_segments allowAboveRoot kept (seg # segs) =
     (if seg = [] \<or> seg = ''.'' then normalize_segments allowAboveRoot kept segs
      else if seg = ''..'' then
        (if kept \<noteq> [] \<and> last kept \<noteq> ''..''
         then normalize_segments allowAboveRoot (butlast kept) segs
         else if allowAboveRoot then normalize_segments allowAboveRoot (kept @ [''..'']) segs
         else normalize_segments allowAboveRoot kept segs)
      else normalize_segments allowAboveRoot (kept @ [seg]) segs)"

fun join_segments :: "string list \<Rightarrow> string" where
  "join_segments [] = []"
| "join_segments [seg] = seg"
| "join_segments (seg # segs) = seg @ ''/'' @ join_segments segs"

definition path_normalize :: "string \<Rightarrow> string" where
  "path_normalize p =
     (if p = [] then ''.''
      else
        (let isAbsolute = (hd p = CHR ''/'');
             trailingSeparator = (last p = CHR ''/'');
             body = join_segments (normalize_segments (\<not> isAbsolute) [] (split_path p))
         in if body = []
            then (if isAbsolute then ''/'' else if trailingSeparator then ''./'' else ''.'')
            else (if isAbsolute then ''/'' else []) @ body
                   @ (if trailingSeparator then ''/'' else [])))"

definition path_join :: "string \<Rightarrow> string \<Rightarrow> string" where
  "path_join a b =
     (if a = [] \<and> b = [] then ''.''
      else if a = [] then path_normalize b
      else if b = [] then path_normalize a
      else path_normalize (a @ ''/'' @ b))"

text \<open>\<^verbatim>\<open>path.resolve\<close> of one string: the absolute path it names from the working
  directory, normalised, without a trailing slash.\<close>

definition path_resolve :: "string \<Rightarrow> string \<Rightarrow> string" where
  "path_resolve workdir p =
     (let whole = (if p \<noteq> [] \<and> hd p = CHR ''/'' then p else workdir @ ''/'' @ p)
      in ''/'' @ join_segments (normalize_segments False [] (split_path whole)))"

text \<open>A raster file is known by its width and height (\<^verbatim>\<open>metadata.width || 0\<close>).\<close>

type_synonym image = "int \<times> int"

text \<open>One use of the image library: the file read, its size, and the region asked for
  (left, top, width, height).\<close>

record sharp_call =
  call_input :: string
  call_image :: image
  call_region :: "int \<times> int \<times> int \<times> int"

text \<open>
  JavaScript passes objects by reference, and \<^verbatim>\<open>cropImage\<close> assigns to fields of the
  configuration it is given. The configurations therefore live in a store, and the functions
  take the address of one. The world also holds the working directory of the process, the
  raster files on disk and the places where the image library cannot write a file (a missing
  directory, a missing permission, a name whose format it refuses), both by resolved path,
  and the log of the uses of the image library.
\<close>

type_synonym ref = nat

record world =
  cwd :: string
  files :: "string \<rightharpoonup> image"
  unwritable :: "string \<Rightarrow> bool"
  configs :: "ref \<Rightarrow> CropConfig"
  sharp_calls :: "sharp_call list"

definition file_at :: "world \<Rightarrow> string \<Rightarrow> image option" where
  "file_at w p = files w (path_resolve (cwd w) p)"

definition write_file :: "world \<Rightarrow> string \<Rightarrow> image \<Rightarrow> world" where
  "write_file w p img = w\<lparr>files := (files w)(path_resolve (cwd w) p \<mapsto> img)\<rparr>"

definition DEFAULT_JUPITER_CROP :: ref where
  "DEFAULT_JUPITER_CROP = 0"

definition DEFAULT_JUPITER_CROP_value :: CropConfig where
  "DEFAULT_JUPITER_CROP_value =
     \<lparr>enabled = True, crop_x = 0, crop_y = 100, crop_width = 1450, crop_height = 550,
      outputSuffix = Some ''-cropped''\<rparr>"

text \<open>
  The image library \<^verbatim>\<open>sharp\<close> is not part of the repository. Of
  \<^verbatim>\<open>sharp(input).extract(region).png().toFile(output)\<close> the model keeps the order of its
  checks and abbreviates its messages: \<^verbatim>\<open>extract\<close> raises on a negative number; \<^verbatim>\<open>toFile\<close>
  refuses an output that resolves to the file it reads; the extraction raises unless the
  region has a positive size and lies inside the image; the write raises where no file can
  be written. Otherwise a raster of the size of the region is written. The two paths are
  given resolved.
\<close>

definition sharp_extract_toFile ::
  "(string \<Rightarrow> bool) \<Rightarrow> string \<Rightarrow> image \<Rightarrow> int \<times> int \<times> int \<times> int \<Rightarrow> string \<Rightarrow> string + image" where
  "sharp_extract_toFile locked input img region output =
     (case region of (l, t, w, h) \<Rightarrow>
        if l < 0 \<or> t < 0 \<or> w < 0 \<or> h < 0 then Inl ''Expected integer for extract''
        else if output = input then Inl ''Cannot use same file for input and output''
        else if \<not> (0 < w \<and> 0 < h \<and> l + w \<le> fst img \<and> t + h \<le> snd img)
        then Inl ''extract_area: bad extract area''
        else if locked output then Inl ''unable to open for write''
        else Inr (w, h))"

definition cropImage :: "world \<Rightarrow> string \<Rightarrow> string \<Rightarrow> ref \<Rightarrow> (string + string) \<times> world" where
  "cropImage w inputPath outputPath r =
     (let config = configs w r in
      if \<not> enabled config then (Inr inputPath, w)
      else case file_at w inputPath of
        None \<Rightarrow> (Inl (''Input image not found: '' @ inputPath), w)
      | Some (imageWidth, imageHeight) \<Rightarrow>
         (let c1 = (if crop_x config + crop_width config > imageWidth
                    then config\<lparr>crop_width := imageWidth - crop_x config\<rparr> else config);
              c2 = (if crop_y c1 + crop_height c1 > imageHeight
                    then c1\<lparr>crop_height := imageHeight - crop_y c1\<rparr> else c1);
              region = (crop_x c2, crop_y c2, crop_width c2, crop_height c2);
              w1 = w\<lparr>configs := (configs w)(r := c2),
                     sharp_calls := sharp_calls w @
                       [\<lparr>call_input = inputPath, call_image = (imageWidth, imageHeight),
                         call_region = region\<rparr>]\<rparr>
          in case sharp_extract_toFile (unwritable w) (path_resolve (cwd w) inputPath)
                    (imageWidth, imageHeight) region (path_resolve (cwd w) outputPath) of
               Inl err \<Rightarrow> (Inl err, w1)
             | Inr out \<Rightarrow> (Inr outputPath, write_file w1 outputPath out)))"

text \<open>\<^verbatim>\<open>config.outputSuffix || "-cropped"\<close>: the empty string is falsy.\<close>

definition suffix_of :: "CropConfig \<Rightarrow> string" where
  "suffix_of c = (case outputSuffix c of None \<Rightarrow> ''-cropped''
                  | Some s \<Rightarrow> if s = [] then ''-cropped'' else s)"

text \<open>The \<^verbatim>\<open>for\<close> loop of \<^verbatim>\<open>cropTimeframeScreenshots\<close>: every iteration hands the same
  address to \<^verbatim>\<open>cropImage\<close>; an exception leaves the loop.\<close>

fun crop_loop ::
  "world \<Rightarrow> string \<Rightarrow> ref \<Rightarrow> string list \<Rightarrow> string list \<Rightarrow> (string + string list) \<times> world" where
  "crop_loop w dir r croppedPaths [] = (Inr croppedPaths, w)"
| "crop_loop w dir r croppedPaths (timeframe # rest) =
     (let inputPath = path_join dir (''jupiter-'' @ timeframe @ ''.png'') in
      if file_at w inputPath = None then crop_loop w dir r croppedPaths rest
      else
        (let outputPath =
               path_join dir (''jupiter-'' @ timeframe @ suffix_of (configs w r) @ ''.png'') in
         case cropImage w inputPath outputPath r of
           (Inl err, w') \<Rightarrow> (Inl err, w')
         | (Inr croppedPath, w') \<Rightarrow> crop_loop w' dir r (croppedPaths @ [croppedPath]) rest))"

definition cropTimeframeScreenshots ::
  "world \<Rightarrow> string \<Rightarrow> string list \<Rightarrow> ref \<Rightarrow> (string + string list) \<times> world" where
  "cropTimeframeScreenshots w screenshotsDir timeframes r =
     (if \<not> enabled (configs w r)
      then (Inr (map (\<lambda>tf. path_join screenshotsDir (''jupiter-'' @ tf @ ''.png'')) timeframes), w)
      else crop_loop w screenshotsDir r [] timeframes)"

section \<open>web-automation.ts: the capture orchestrator\<close>

text \<open>An element of \<^verbatim>\<open>MultiTimeframeResult["results"]\<close>.\<close>

record capture_outcome =
  timeframe :: string
  success :: bool
  screenshot :: "string option"
  error :: "string option"

record MultiTimeframeResult =
  mtr_success :: bool
  results :: "capture_outcome list"
  totalScreenshots :: nat
  mtr_error :: "string option"

record MultiTimeframeConfig =
  url :: string
  timeframes :: "string list option"
  cropScreenshots :: bool
  cropConfig :: "ref option"

text \<open>
  What the browser does in one capture: \<open>create_fails\<close> is the message of the error
  raised by \<^verbatim>\<open>createBrowserSession\<close>, \<open>page_fails\<close> that of the first error raised
  between navigation and \<^verbatim>\<open>takeScreenshot\<close>, \<open>close_fails\<close> that of
  \<^verbatim>\<open>closeBrowserSession\<close>; \<open>shot\<close> is the size of the screenshot written otherwise.
\<close>

record session_env =
  create_fails :: "string option"
  page_fails :: "string option"
  shot :: image
  close_fails :: "string option"

definition failed_capture :: "string \<Rightarrow> string \<Rightarrow> capture_outcome" where
  "failed_capture tf msg = \<lparr>timeframe = tf, success = False, screenshot = None, error = Some msg\<rparr>"

definition good_capture :: "string \<Rightarrow> string \<Rightarrow> capture_outcome" where
  "good_capture tf path = \<lparr>timeframe = tf, success = True, screenshot = Some path, error = None\<rparr>"

text \<open>\<^verbatim>\<open>takeScreenshot(page, `jupiter-${timeframe}.png`)\<close> writes below \<^verbatim>\<open>screenshots\<close>.\<close>

definition screenshotPath :: "string \<Rightarrow> string" where
  "screenshotPath tf = ''screenshots'' @ ''/'' @ (''jupiter-'' @ tf @ ''.png'')"

text \<open>The parallel implementation: one browser session per timeframe. An error raised in
  the \<^verbatim>\<open>finally\<close> block replaces the outcome of the \<^verbatim>\<open>try\<close> block.\<close>

definition captureTimeframeScreenshot ::
  "world \<Rightarrow> string \<Rightarrow> session_env \<Rightarrow> capture_outcome \<times> world" where
  "captureTimeframeScreenshot w tf env =
     (case create_fails env of
        Some msg \<Rightarrow> (failed_capture tf msg, w)
      | None \<Rightarrow>
         (let w1 = (case page_fails env of
                      Some msg \<Rightarrow> w
                    | None \<Rightarrow> write_file w (screenshotPath tf) (shot env))
          in case close_fails env of
               Some msg \<Rightarrow> (failed_capture tf msg, w1)
             | None \<Rightarrow>
                (case page_fails env of
                   Some msg \<Rightarrow> (failed_capture tf msg, w1)
                 | None \<Rightarrow> (good_capture tf (screenshotPath tf), w1))))"

text \<open>
  \<^verbatim>\<open>Promise.all(capturePromises)\<close>: the sessions settle in some order, given as the list
  of their indices; the promise with index \<open>i\<close> fills slot \<open>i\<close> of the result array. The
  joint promise resolves once every slot is filled.
\<close>

fun settle ::
  "world \<Rightarrow> string list \<Rightarrow> (nat \<Rightarrow> session_env) \<Rightarrow> capture_outcome option list \<Rightarrow> nat list
     \<Rightarrow> capture_outcome option list \<times> world" where
  "settle w tfs envs slots [] = (slots, w)"
| "settle w tfs envs slots (i # order) =
     (if i < length tfs then
        (case captureTimeframeScreenshot w (tfs ! i) (envs i) of
           (r, w') \<Rightarrow> settle w' tfs envs (slots[i := Some r]) order)
      else settle w tfs envs slots order)"

definition default_timeframes :: "string list" where
  "default_timeframes = [''5m'', ''15m'', ''1h'', ''2h'', ''6h'']"

text \<open>The cropping step shared by both implementations; its errors are caught and logged.\<close>

definition crop_step :: "world \<Rightarrow> MultiTimeframeConfig \<Rightarrow> string list \<Rightarrow> nat \<Rightarrow> world" where
  "crop_step w config tfs shots =
     (if cropScreenshots config \<and> shots > 0 then
        snd (cropTimeframeScreenshots w ''screenshots'' tfs
               (case cropConfig config of None \<Rightarrow> DEFAULT_JUPITER_CROP | Some r \<Rightarrow> r))
      else w)"

text \<open>\<^verbatim>\<open>executeMultiTimeframeAutomation\<close> of the parallel implementation; \<open>None\<close> when
  \<^verbatim>\<open>Promise.all\<close> never resolves because a session never settles. Every call that can
  raise stands in a \<^verbatim>\<open>try\<close> of its own, in this implementation and in the sequential one,
  so the outer \<^verbatim>\<open>catch\<close> is never entered and the field \<^verbatim>\<open>error\<close> of the result stays
  unset.\<close>

definition executeMultiTimeframeAutomation_parallel ::
  "world \<Rightarrow> MultiTimeframeConfig \<Rightarrow> (nat \<Rightarrow> session_env) \<Rightarrow> nat list
     \<Rightarrow> (MultiTimeframeResult \<times> world) option" where
  "executeMultiTimeframeAutomation_parallel w config envs order =
     (let tfs = (case timeframes config of None \<Rightarrow> default_timeframes | Some t \<Rightarrow> t) in
      case settle w tfs envs (replicate (length tfs) None) order of
        (slots, w1) \<Rightarrow>
          (case those slots of
             None \<Rightarrow> None
           | Some rs \<Rightarrow>
              (let successCount = length (filter success rs);
                   shots = successCount
               in Some (\<lparr>mtr_success = successCount > 0, results = rs,
                          totalScreenshots = shots, mtr_error = None\<rparr>,
                        crop_step w1 config tfs shots))))"

text \<open>The sequential implementation works on one page; iteration \<open>i\<close> reads only
  \<open>page_fails\<close> and \<open>shot\<close> of its environment. \<^verbatim>\<open>if (!timeframe) continue;\<close> skips an
  empty label.\<close>

fun sequential_loop ::
  "world \<Rightarrow> (nat \<Rightarrow> session_env) \<Rightarrow> nat \<Rightarrow> string list \<Rightarrow> capture_outcome list \<Rightarrow> nat
     \<Rightarrow> capture_outcome list \<times> nat \<times> world" where
  "sequential_loop w envs i [] rs shots = (rs, shots, w)"
| "sequential_loop w envs i (tf # rest) rs shots =
     (if tf = [] then sequential_loop w envs (i + 1) rest rs shots
      else case page_fails (envs i) of
        Some msg \<Rightarrow> sequential_loop w envs (i + 1) rest (rs @ [failed_capture tf msg]) shots
      | None \<Rightarrow>
          sequential_loop (write_file w (screenshotPath tf) (shot (envs i)))
            envs (i + 1) rest (rs @ [good_capture tf (screenshotPath tf)]) (shots + 1))"

definition executeMultiTimeframeAutomation_sequential ::
  "world \<Rightarrow> MultiTimeframeConfig \<Rightarrow> (nat \<Rightarrow> session_env) \<Rightarrow> MultiTimeframeResult \<times> world" where
  "executeMultiTimeframeAutomation_sequential w config envs =
     (let tfs = (case timeframes config of None \<Rightarrow> default_timeframes | Some t \<Rightarrow> t) in
      case sequential_loop w envs 0 tfs [] 0 of
        (rs, shots, w1) \<Rightarrow>
          (let successCount = length (filter success rs)
           in (\<lparr>mtr_success = successCount > 0, results = rs,
                 totalScreenshots = shots, mtr_error = None\<rparr>,
               crop_step w1 config tfs shots)))"

section \<open>sound-effects.ts: the notification\<close>

datatype platform = Darwin | Linux | Win32 | OtherPlatform

text \<open>
  What becomes of a spawned child process: it closes with an exit code, or it cannot be
  started (\<^verbatim>\<open>ENOENT\<close> for a missing program), which Node reports after \<^verbatim>\<open>spawn\<close> has
  returned, through the event \<^verbatim>\<open>'error'\<close> of the child.
\<close>

datatype child_outcome = Closed int | ErrorEvent string

text \<open>
  The machine as the sound functions meet it: \<open>sound_enabled\<close> and \<open>fallbackToSystemBeep\<close>
  are the two flags of \<^verbatim>\<open>getSoundConfig\<close>, \<open>soundFileExists\<close> is \<^verbatim>\<open>existsSync\<close>,
  \<open>playerError\<close> the error handed to the callback of \<^verbatim>\<open>player.play\<close>, \<open>systemChild\<close> and
  \<open>beepChild\<close> the fate of the child spawned by \<^verbatim>\<open>playSystemSound\<close> and by
  \<^verbatim>\<open>generateBeep\<close>.
\<close>

record sound_env =
  sound_enabled :: bool
  fallbackToSystemBeep :: bool
  platform :: platform
  soundFileExists :: "string \<Rightarrow> bool"
  playerError :: "string option"
  systemChild :: child_outcome
  beepChild :: child_outcome

text \<open>\<^verbatim>\<open>SOUND_FILES[action]\<close>: the action, whatever value the verdict holds under
  \<^verbatim>\<open>action\<close>, is used as a property key. Under any other key than the three there is no
  path, and \<^verbatim>\<open>existsSync\<close> is false of what is found there.\<close>

definition SOUND_FILES :: "string \<Rightarrow> string option" where
  "SOUND_FILES k =
     (if k = ''LONG'' then Some ''assets/sounds/long.wav''
      else if k = ''SHORT'' then Some ''assets/sounds/short.wav''
      else if k = ''HOLD'' then Some ''assets/sounds/hold.wav''
      else None)"

definition playCustomSound :: "conversions \<Rightarrow> sound_env \<Rightarrow> json option \<Rightarrow> bool" where
  "playCustomSound cv env action =
     (case SOUND_FILES (property_key cv action) of
        None \<Rightarrow> False
      | Some soundFile \<Rightarrow>
          if \<not> soundFileExists env soundFile then False
          else (case playerError env of None \<Rightarrow> True | Some err \<Rightarrow> False))"

text \<open>\<^verbatim>\<open>playSystemSound\<close> awaits the child with listeners for \<^verbatim>\<open>'close'\<close> and
  \<^verbatim>\<open>'error'\<close>: every failure is a rejection caught by its \<^verbatim>\<open>try\<close>.\<close>

definition playSystemSound :: "sound_env \<Rightarrow> json option \<Rightarrow> bool" where
  "playSystemSound env action =
     (case platform env of
        OtherPlatform \<Rightarrow> False
      | _ \<Rightarrow> (case systemChild env of
                Closed code \<Rightarrow> code = 0
              | ErrorEvent err \<Rightarrow> False))"

text \<open>
  \<^verbatim>\<open>generateBeep\<close> spawns the player and returns at once; it installs no listener on the
  child. Its \<^verbatim>\<open>try\<close> covers the call of \<^verbatim>\<open>spawn\<close> only, and an \<^verbatim>\<open>'error'\<close> event emitted
  later on a child without a listener for it is raised by Node as an uncaught exception.
  The result is the message of that pending exception, if any.
\<close>

definition generateBeep :: "sound_env \<Rightarrow> string option" where
  "generateBeep env =
     (case platform env of
        Darwin \<Rightarrow> (case beepChild env of ErrorEvent err \<Rightarrow> Some err | Closed code \<Rightarrow> None)
      | Linux \<Rightarrow> (case beepChild env of ErrorEvent err \<Rightarrow> Some err | Closed code \<Rightarrow> None)
      | _ \<Rightarrow> None)"

text \<open>\<^verbatim>\<open>playTradingSound\<close>; its \<^verbatim>\<open>switch\<close> compares the action strictly with the three
  strings.\<close>

definition playTradingSound :: "conversions \<Rightarrow> sound_env \<Rightarrow> json option \<Rightarrow> string option" where
  "playTradingSound cv env action =
     (if \<not> sound_enabled env then None
      else if playCustomSound cv env action then None
      else if playSystemSound env action then None
      else if fallbackToSystemBeep env then
        (if action = Some (JStr ''LONG'') then generateBeep env
         else if action = Some (JStr ''SHORT'') then generateBeep env
         else if action = Some (JStr ''HOLD'') then generateBeep env
         else None)
      else None)"

text \<open>How an asynchronous function ends: it returns, leaving perhaps an exception pending
  that no handler will see, or the process has ended by an uncaught exception before.\<close>

datatype alert_end = Finished "string option" | ProcessEnded string

text \<open>\<^verbatim>\<open>confidence >= 80\<close> on what the verdict holds under \<^verbatim>\<open>confidence\<close>.\<close>

definition high_confidence :: "conversions \<Rightarrow> json option \<Rightarrow> bool" where
  "high_confidence cv confidence = at_least (to_number cv confidence) 80"

text \<open>
  \<^verbatim>\<open>playTradingAlert\<close>. For a high confidence it waits 300 ms on a timer and plays the
  sound again; Node raises a pending uncaught exception before it serves a timer.
\<close>

definition playTradingAlert ::
  "conversions \<Rightarrow> sound_env \<Rightarrow> json option \<Rightarrow> json option \<Rightarrow> alert_end" where
  "playTradingAlert cv env action confidence =
     (case playTradingSound cv env action of
        Some err \<Rightarrow> if high_confidence cv confidence then ProcessEnded err else Finished (Some err)
      | None \<Rightarrow> if high_confidence cv confidence then Finished (playTradingSound cv env action)
                else Finished None)"

section \<open>vision-analysis.ts: the vision pipeline\<close>

text \<open>Reading a property, \<^verbatim>\<open>v.k\<close>: a \<^verbatim>\<open>TypeError\<close> on null and undefined.\<close>

definition TypeError :: string where
  "TypeError = ''TypeError''"

fun member :: "json option \<Rightarrow> string \<Rightarrow> string + json option" where
  "member None k = Inl TypeError"
| "member (Some JNull) k = Inl TypeError"
| "member (Some (JObj kvs)) k = Inr (map_of kvs k)"
| "member (Some v) k = Inr None"

text \<open>\<^verbatim>\<open>{...decision, timeframes: analyses}\<close>: the own properties of the parsed value,
  with the key \<^verbatim>\<open>timeframes\<close> replaced where it stands or added at the end. The spread
  of a string or of an array has its indices as keys; they are left out, as the stage raises
  for such a value before it returns (it has no \<^verbatim>\<open>action\<close>).\<close>

fun put_field :: "string \<Rightarrow> json \<Rightarrow> (string \<times> json) list \<Rightarrow> (string \<times> json) list" where
  "put_field k v [] = [(k, v)]"
| "put_field k v ((k', v') # kvs) =
     (if k' = k then (k, v) # kvs else (k', v') # put_field k v kvs)"

fun spread :: "json \<Rightarrow> (string \<times> json) list" where
  "spread (JObj kvs) = kvs"
| "spread v = []"

text \<open>
  \<^verbatim>\<open>content.match(/\{[\s\S]*\}/)\<close>: the match starts at the first opening brace and,
  the star being greedy, ends at the last closing brace behind it.
\<close>

definition jsonMatch :: "string \<Rightarrow> string option" where
  "jsonMatch content =
     (case dropWhile (\<lambda>c. c \<noteq> CHR ''{'') content of
        [] \<Rightarrow> None
      | brace # after \<Rightarrow>
         (case rev (dropWhile (\<lambda>c. c \<noteq> CHR ''}'') (rev after)) of
            [] \<Rightarrow> None
          | inner \<Rightarrow> Some (brace # inner)))"

text \<open>What \<^verbatim>\<open>openai.chat.completions.create\<close> gives back: an exception, or
  \<^verbatim>\<open>choices[0]?.message?.content\<close> (\<open>None\<close> when it is missing).\<close>

datatype reply = ApiError string | Content "string option"

text \<open>The same for the call with a function schema: \<^verbatim>\<open>message.function_call\<close> may be
  missing, and its \<^verbatim>\<open>arguments\<close> too.\<close>

datatype verdict_reply = VerdictApiError string | NoFunctionCall | FunctionCall "string option"

datatype api_call = ChartCall string | DecisionCall | ComprehensiveCall | VerdictCall

text \<open>
  The surroundings of one run of the pipeline. The prompts are functions of the data they
  are built from, so the replies are given as functions of that data (an exception while
  the image file is read counts as one of the request); \<open>parse\<close> is \<^verbatim>\<open>JSON.parse\<close> (\<open>Inl\<close>
  the message of its \<^verbatim>\<open>SyntaxError\<close>); \<open>conv\<close> holds the conversions of the runtime. For the
  result files, \<open>outputDirExists\<close> is \<^verbatim>\<open>fs.existsSync(outputDir)\<close> at the start, and
  \<open>mkdir_fails\<close>, \<open>json_write_fails\<close> and \<open>text_write_fails\<close> are the messages of the
  exceptions of \<^verbatim>\<open>fs.mkdirSync\<close> and of the two calls of \<^verbatim>\<open>fs.writeFileSync\<close>, if they
  raise. The cost estimate of the source is left out.
\<close>

record vision_env =
  apiKeySet :: bool
  fileExists :: "string \<Rightarrow> bool"
  chartReply :: "string \<Rightarrow> string \<Rightarrow> reply"
  decisionReply :: "json list \<Rightarrow> reply"
  comprehensiveReply :: "json list \<Rightarrow> json \<Rightarrow> reply"
  verdictReply :: "json list \<Rightarrow> json \<Rightarrow> json \<Rightarrow> verdict_reply"
  parse :: "string \<Rightarrow> string + json"
  conv :: conversions
  outputDirExists :: bool
  mkdir_fails :: "string option"
  json_write_fails :: "string option"
  text_write_fails :: "string option"
  sounds :: sound_env

record VisionAnalysisConfig =
  screenshotsDir :: "string option"
  va_timeframes :: "string list option"
  soundEffects :: "bool option"
  saveJson :: bool
  saveText :: bool

record VisionAnalysisResult =
  va_success :: bool
  tradingDecision :: "json option"
  individualAnalyses :: "json list"
  comprehensiveAnalysis :: "json option"
  finalVerdict :: "json option"
  va_error :: "string option"

text \<open>The three stages with a free-text reply share these steps: the content must be
  there, a match is sought in it, and the match is parsed.\<close>

definition parse_content :: "vision_env \<Rightarrow> string option \<Rightarrow> string + json" where
  "parse_content env c =
     (case c of
        None \<Rightarrow> Inl ''No response content from OpenAI''
      | Some content \<Rightarrow>
          if content = [] then Inl ''No response content from OpenAI''
          else (case jsonMatch content of
                  None \<Rightarrow> Inl ''No JSON found in response''
                | Some m \<Rightarrow> parse env m))"

definition analyzeChartImage :: "vision_env \<Rightarrow> string \<Rightarrow> string \<Rightarrow> string + json" where
  "analyzeChartImage env imagePath tf =
     (if \<not> fileExists env imagePath then Inl (''Image file not found: '' @ imagePath)
      else case chartReply env imagePath tf of
        ApiError msg \<Rightarrow> Inl msg
      | Content c \<Rightarrow>
         (case parse_content env c of
            Inl msg \<Rightarrow> Inl msg
          | Inr analysis \<Rightarrow>
             (case member (Some analysis) ''trend'' of
                Inl msg \<Rightarrow> Inl msg
              | Inr trend \<Rightarrow> Inr analysis)))"

text \<open>\<^verbatim>\<open>getMultiTimeframePrompt\<close> calls \<^verbatim>\<open>a.signals.join\<close> on every analysis, which
  raises unless \<^verbatim>\<open>signals\<close> is an array.\<close>

definition joinable :: "json \<Rightarrow> bool" where
  "joinable a = (case member (Some a) ''signals'' of Inr (Some (JArr xs)) \<Rightarrow> True | _ \<Rightarrow> False)"

definition makeMultiTimeframeDecision ::
  "vision_env \<Rightarrow> json list \<Rightarrow> (string + json) \<times> api_call list" where
  "makeMultiTimeframeDecision env analyses =
     (if \<not> list_all joinable analyses then (Inl TypeError, [])
      else case decisionReply env analyses of
        ApiError msg \<Rightarrow> (Inl msg, [DecisionCall])
      | Content c \<Rightarrow>
         (case parse_content env c of
            Inl msg \<Rightarrow> (Inl msg, [DecisionCall])
          | Inr decision \<Rightarrow>
             (let fullDecision = put_field ''timeframes'' (JArr analyses) (spread decision) in
              case map_of fullDecision ''action'' of
                Some (JStr action) \<Rightarrow> (Inr (JObj fullDecision), [DecisionCall])
              | _ \<Rightarrow> (Inl TypeError, [DecisionCall]))))"

definition generateComprehensiveAnalysis ::
  "vision_env \<Rightarrow> json list \<Rightarrow> json \<Rightarrow> (string + json) \<times> api_call list" where
  "generateComprehensiveAnalysis env analyses tradingDecision' =
     (case comprehensiveReply env analyses tradingDecision' of
        ApiError msg \<Rightarrow> (Inl msg, [ComprehensiveCall])
      | Content c \<Rightarrow> (parse_content env c, [ComprehensiveCall]))"

text \<open>The prompt of the verdict reads \<^verbatim>\<open>comprehensiveAnalysis.riskAssessment.riskLevel\<close>
  and \<^verbatim>\<open>comprehensiveAnalysis.quantitativeMetrics.timeframeAlignment\<close>.\<close>

definition verdict_prompt :: "json \<Rightarrow> string + unit" where
  "verdict_prompt compAnalysis =
     (case member (Some compAnalysis) ''riskAssessment'' of
        Inl msg \<Rightarrow> Inl msg
      | Inr risk \<Rightarrow>
         (case member risk ''riskLevel'' of
            Inl msg \<Rightarrow> Inl msg
          | Inr level \<Rightarrow>
             (case member (Some compAnalysis) ''quantitativeMetrics'' of
                Inl msg \<Rightarrow> Inl msg
              | Inr metrics \<Rightarrow>
                 (case member metrics ''timeframeAlignment'' of
                    Inl msg \<Rightarrow> Inl msg
                  | Inr alignment \<Rightarrow> Inr ()))))"

definition generateFinalVerdict ::
  "vision_env \<Rightarrow> json list \<Rightarrow> json \<Rightarrow> json \<Rightarrow> (string + json) \<times> api_call list" where
  "generateFinalVerdict env analyses tradingDecision' compAnalysis =
     (case verdict_prompt compAnalysis of
        Inl msg \<Rightarrow> (Inl msg, [])
      | Inr u \<Rightarrow>
         (case verdictReply env analyses tradingDecision' compAnalysis of
            VerdictApiError msg \<Rightarrow> (Inl msg, [VerdictCall])
          | NoFunctionCall \<Rightarrow> (Inl ''No function call response from OpenAI'', [VerdictCall])
          | FunctionCall None \<Rightarrow> (Inl ''No function call response from OpenAI'', [VerdictCall])
          | FunctionCall (Some arguments) \<Rightarrow>
              if arguments = [] then (Inl ''No function call response from OpenAI'', [VerdictCall])
              else (case parse env arguments of
                      Inl msg \<Rightarrow> (Inl msg, [VerdictCall])
                    | Inr verdict \<Rightarrow>
                       (case member (Some verdict) ''action'' of
                          Inl msg \<Rightarrow> (Inl msg, [VerdictCall])
                        | Inr action \<Rightarrow> (Inr verdict, [VerdictCall])))))"

text \<open>The image of a timeframe: the cropped file if it exists, the original otherwise.\<close>

definition chart_image :: "vision_env \<Rightarrow> string \<Rightarrow> string \<Rightarrow> (string \<times> string) option" where
  "chart_image env dir tf =
     (let croppedPath = path_join dir (''jupiter-'' @ tf @ ''-cropped.png'');
          originalPath = path_join dir (''jupiter-'' @ tf @ ''.png'')
      in if fileExists env croppedPath then Some (croppedPath, tf)
         else if fileExists env originalPath then Some (originalPath, tf)
         else None)"

definition imageFiles :: "vision_env \<Rightarrow> VisionAnalysisConfig \<Rightarrow> (string \<times> string) list" where
  "imageFiles env config =
     (let dir = (case screenshotsDir config of None \<Rightarrow> ''screenshots''
                 | Some d \<Rightarrow> if d = [] then ''screenshots'' else d);
          tfs = (case va_timeframes config of None \<Rightarrow> default_timeframes | Some t \<Rightarrow> t)
      in List.map_filter (chart_image env dir) tfs)"

text \<open>\<^verbatim>\<open>Promise.all\<close> over the analyses, each with its own \<^verbatim>\<open>catch\<close> that yields
  \<^verbatim>\<open>null\<close>, then the filter that drops the nulls.\<close>

definition analyses_of :: "vision_env \<Rightarrow> VisionAnalysisConfig \<Rightarrow> json list" where
  "analyses_of env config =
     List.map_filter
       (\<lambda>(imagePath, tf). case analyzeChartImage env imagePath tf of
                              Inl msg \<Rightarrow> None | Inr analysis \<Rightarrow> Some analysis)
       (imageFiles env config)"

text \<open>
  The two functions that write the result files raise what the file system raises. On its
  way \<^verbatim>\<open>saveAnalysisToText\<close> also reads the result, and raises a \<^verbatim>\<open>TypeError\<close> where a
  property is read of null or undefined, or a method is called on a value that has none of
  that name: \<^verbatim>\<open>toUpperCase\<close> is a method of strings, \<^verbatim>\<open>toFixed\<close> of numbers, \<^verbatim>\<open>forEach\<close>
  and \<^verbatim>\<open>join\<close> of arrays.
\<close>

definition nullish :: "json option \<Rightarrow> bool" where
  "nullish v = (v = None \<or> v = Some JNull)"

definition is_string :: "json option \<Rightarrow> bool" where
  "is_string v = (case v of Some (JStr s) \<Rightarrow> True | _ \<Rightarrow> False)"

definition is_number :: "json option \<Rightarrow> bool" where
  "is_number v = (case v of Some (JNum n) \<Rightarrow> True | _ \<Rightarrow> False)"

definition is_array :: "json option \<Rightarrow> bool" where
  "is_array v = (case v of Some (JArr xs) \<Rightarrow> True | _ \<Rightarrow> False)"

text \<open>\<^verbatim>\<open>if (v.length > 0) { ... v.forEach(...) ... }\<close>, and the same with \<^verbatim>\<open>join\<close>: whether
  it goes through without a \<^verbatim>\<open>TypeError\<close>.\<close>

definition listed :: "conversions \<Rightarrow> json option \<Rightarrow> bool" where
  "listed cv v =
     (case v of
        None \<Rightarrow> False
      | Some JNull \<Rightarrow> False
      | Some (JArr xs) \<Rightarrow> True
      | Some u \<Rightarrow> \<not> greater (to_number cv (js_length u)) 0)"

text \<open>The part of the report on one analysis: \<^verbatim>\<open>analysis.timeframe.toUpperCase()\<close>,
  \<^verbatim>\<open>analysis.trend.toUpperCase()\<close>, \<^verbatim>\<open>analysis.keyLevels.support\<close>,
  \<^verbatim>\<open>analysis.indicators.volume\<close>, \<^verbatim>\<open>analysis.signals.length\<close>.\<close>

definition analysis_reported :: "conversions \<Rightarrow> json \<Rightarrow> bool" where
  "analysis_reported cv analysis =
     (is_string (opt_chain (Some analysis) ''timeframe'')
      \<and> is_string (opt_chain (Some analysis) ''trend'')
      \<and> \<not> nullish (opt_chain (Some analysis) ''keyLevels'')
      \<and> \<not> nullish (opt_chain (Some analysis) ''indicators'')
      \<and> listed cv (opt_chain (Some analysis) ''signals''))"

text \<open>The part on the trading decision, under \<^verbatim>\<open>if (result.tradingDecision)\<close>:
  \<^verbatim>\<open>decision.action.toUpperCase()\<close>, \<^verbatim>\<open>decision.warnings.length\<close>.\<close>

definition decision_reported :: "conversions \<Rightarrow> json \<Rightarrow> bool" where
  "decision_reported cv decision =
     (if truthy decision
      then is_string (opt_chain (Some decision) ''action'')
           \<and> listed cv (opt_chain (Some decision) ''warnings'')
      else True)"

text \<open>The part on the comprehensive analysis, under \<^verbatim>\<open>if (result.comprehensiveAnalysis)\<close>:
  \<^verbatim>\<open>comp.quantitativeMetrics.avgConfidence.toFixed(1)\<close>,
  \<^verbatim>\<open>comp.riskAssessment.riskLevel.toUpperCase()\<close>, \<^verbatim>\<open>comp.riskAssessment.keyRisks.forEach\<close>,
  \<^verbatim>\<open>comp.riskAssessment.riskMitigation.forEach\<close>, \<^verbatim>\<open>comp.strategicRecommendations.primary\<close>,
  \<^verbatim>\<open>comp.nextSteps.forEach\<close>.\<close>

definition comprehensive_reported :: "json \<Rightarrow> bool" where
  "comprehensive_reported compAnalysis =
     (if truthy compAnalysis
      then (let metrics = opt_chain (Some compAnalysis) ''quantitativeMetrics'';
                risk = opt_chain (Some compAnalysis) ''riskAssessment''
            in is_number (opt_chain metrics ''avgConfidence'')
               \<and> is_string (opt_chain risk ''riskLevel'')
               \<and> is_array (opt_chain risk ''keyRisks'')
               \<and> is_array (opt_chain risk ''riskMitigation'')
               \<and> \<not> nullish (opt_chain (Some compAnalysis) ''strategicRecommendations'')
               \<and> is_array (opt_chain (Some compAnalysis) ''nextSteps''))
      else True)"

text \<open>The part on the verdict, under \<^verbatim>\<open>if (result.finalVerdict)\<close>:
  \<^verbatim>\<open>verdict.timeHorizon.toUpperCase()\<close>, \<^verbatim>\<open>verdict.criticalWarnings.length\<close>.\<close>

definition verdict_reported :: "conversions \<Rightarrow> json \<Rightarrow> bool" where
  "verdict_reported cv verdict =
     (if truthy verdict
      then is_string (opt_chain (Some verdict) ''timeHorizon'')
           \<and> listed cv (opt_chain (Some verdict) ''criticalWarnings'')
      else True)"

text \<open>Both functions create the output directory if it is not there. Each takes whether
  the directory exists when it starts and gives the message of the exception it raises, if
  any.\<close>

definition ensure_directory :: "vision_env \<Rightarrow> bool \<Rightarrow> string option" where
  "ensure_directory env dirExists = (if dirExists then None else mkdir_fails env)"

definition saveAnalysisToJson :: "vision_env \<Rightarrow> bool \<Rightarrow> string option" where
  "saveAnalysisToJson env dirExists =
     (case ensure_directory env dirExists of
        Some msg \<Rightarrow> Some msg
      | None \<Rightarrow> json_write_fails env)"

definition saveAnalysisToText ::
  "vision_env \<Rightarrow> bool \<Rightarrow> json list \<Rightarrow> json \<Rightarrow> json \<Rightarrow> json \<Rightarrow> string option" where
  "saveAnalysisToText env dirExists analyses decision compAnalysis verdict =
     (case ensure_directory env dirExists of
        Some msg \<Rightarrow> Some msg
      | None \<Rightarrow>
          if list_all (analysis_reported (conv env)) analyses
             \<and> decision_reported (conv env) decision
             \<and> comprehensive_reported compAnalysis
             \<and> verdict_reported (conv env) verdict
          then text_write_fails env
          else Some TypeError)"

text \<open>The block \<^verbatim>\<open>if (config.saveJson || config.saveText)\<close> at the end of the pipeline.\<close>

definition save_results ::
  "vision_env \<Rightarrow> bool \<Rightarrow> bool \<Rightarrow> json list \<Rightarrow> json \<Rightarrow> json \<Rightarrow> json \<Rightarrow> string option" where
  "save_results env withJson withText analyses decision compAnalysis verdict =
     (if withJson then
        (case saveAnalysisToJson env (outputDirExists env) of
           Some msg \<Rightarrow> Some msg
         | None \<Rightarrow>
             if withText
             then saveAnalysisToText env True analyses decision compAnalysis verdict
             else None)
      else if withText
      then saveAnalysisToText env (outputDirExists env) analyses decision compAnalysis verdict
      else None)"

text \<open>
  One run of \<^verbatim>\<open>executeVisionAnalysis\<close>: \<open>returned\<close> is the value it returns, \<open>None\<close> when the
  process ends before; \<open>uncaught\<close> is the exception that ends the process, if any; \<open>calls\<close>
  lists the requests made to the reasoning service.
\<close>

record vision_run =
  returned :: "VisionAnalysisResult option"
  uncaught :: "string option"
  calls :: "api_call list"

definition failure_result :: "string \<Rightarrow> VisionAnalysisResult" where
  "failure_result msg =
     \<lparr>va_success = False, tradingDecision = None, individualAnalyses = [],
      comprehensiveAnalysis = None, finalVerdict = None, va_error = Some msg\<rparr>"

definition failed_run :: "string \<Rightarrow> api_call list \<Rightarrow> vision_run" where
  "failed_run msg cs = \<lparr>returned = Some (failure_result msg), uncaught = None, calls = cs\<rparr>"

definition executeVisionAnalysis :: "vision_env \<Rightarrow> VisionAnalysisConfig \<Rightarrow> vision_run" where
  "executeVisionAnalysis env config =
     (if \<not> apiKeySet env then failed_run ''OPENAI_API_KEY environment variable is required'' []
      else if imageFiles env config = []
      then failed_run ''No chart images found. Run chart capture first.'' []
      else
        (let analyses = analyses_of env config;
             cs0 = map (\<lambda>(imagePath, tf). ChartCall tf) (imageFiles env config)
         in if analyses = [] then failed_run ''No successful chart analyses'' cs0
            else case makeMultiTimeframeDecision env analyses of
              (Inl msg, cs1) \<Rightarrow> failed_run msg (cs0 @ cs1)
            | (Inr decision, cs1) \<Rightarrow>
               (case generateComprehensiveAnalysis env analyses decision of
                  (Inl msg, cs2) \<Rightarrow> failed_run msg (cs0 @ cs1 @ cs2)
                | (Inr compAnalysis, cs2) \<Rightarrow>
                   (case generateFinalVerdict env analyses decision compAnalysis of
                      (Inl msg, cs3) \<Rightarrow> failed_run msg (cs0 @ cs1 @ cs2 @ cs3)
                    | (Inr verdict, cs3) \<Rightarrow>
                       (let alert =
                              (if truthy verdict \<and> soundEffects config \<noteq> Some False
                               then playTradingAlert (conv env) (sounds env)
                                      (opt_chain (Some verdict) ''action'')
                                      (opt_chain (Some verdict) ''confidence'')
                               else Finished None);
                            cs = cs0 @ cs1 @ cs2 @ cs3
                        in case alert of
                             ProcessEnded err \<Rightarrow> \<lparr>returned = None, uncaught = Some err, calls = cs\<rparr>
                           | Finished pending \<Rightarrow>
                              (case save_results env (saveJson config) (saveText config)
                                      analyses decision compAnalysis verdict of
                                 Some msg \<Rightarrow> \<lparr>returned = Some (failure_result msg),
                                              uncaught = pending, calls = cs\<rparr>
                               | None \<Rightarrow> \<lparr>returned = Some
                                        \<lparr>va_success = True, tradingDecision = Some decision,
                                         individualAnalyses = analyses,
                                         comprehensiveAnalysis = Some compAnalysis,
                                         finalVerdict = Some verdict, va_error = None\<rparr>,
                                     uncaught = pending, calls = cs\<rparr>))))))"

section \<open>Notions used in the statements\<close>

text \<open>The requested timeframes: \<^verbatim>\<open>config.timeframes || ["5m", "15m", "1h", "2h", "6h"]\<close>.\<close>

definition requested :: "MultiTimeframeConfig \<Rightarrow> string list" where
  "requested config = (case timeframes config of None \<Rightarrow> default_timeframes | Some t \<Rightarrow> t)"

text \<open>The entry that one session of the parallel implementation contributes.\<close>

definition outcome_of :: "string \<Rightarrow> session_env \<Rightarrow> capture_outcome" where
  "outcome_of tf env =
     (case create_fails env of
        Some msg \<Rightarrow> failed_capture tf msg
      | None \<Rightarrow>
         (case close_fails env of
            Some msg \<Rightarrow> failed_capture tf msg
          | None \<Rightarrow>
             (case page_fails env of
                Some msg \<Rightarrow> failed_capture tf msg
              | None \<Rightarrow> good_capture tf (screenshotPath tf))))"

text \<open>The entry that one iteration of the sequential implementation contributes for a
  label that is not empty.\<close>

definition iteration_outcome :: "string \<Rightarrow> session_env \<Rightarrow> capture_outcome" where
  "iteration_outcome tf env =
     (case page_fails env of
        Some msg \<Rightarrow> \<lparr>timeframe = tf, success = False, screenshot = None, error = Some msg\<rparr>
      | None \<Rightarrow> \<lparr>timeframe = tf, success = True, screenshot = Some (screenshotPath tf),
                 error = None\<rparr>)"

text \<open>The configuration after the two adjustments of \<^verbatim>\<open>cropImage\<close> for an image.\<close>

definition clamped :: "CropConfig \<Rightarrow> image \<Rightarrow> CropConfig" where
  "clamped c img =
     c\<lparr>crop_width := (if crop_x c + crop_width c > fst img then fst img - crop_x c
                      else crop_width c),
       crop_height := (if crop_y c + crop_height c > snd img then snd img - crop_y c
                       else crop_height c)\<rparr>"

text \<open>The region a configuration describes, and the regions of a run of crops that work on
  one configuration: each is the adjustment, to its image, of the configuration the crop
  before it has left.\<close>

definition region_of :: "CropConfig \<Rightarrow> int \<times> int \<times> int \<times> int" where
  "region_of c = (crop_x c, crop_y c, crop_width c, crop_height c)"

fun shrinking :: "CropConfig \<Rightarrow> image list \<Rightarrow> CropConfig list" where
  "shrinking c [] = []"
| "shrinking c (img # imgs) = clamped c img # shrinking (clamped c img) imgs"

text \<open>The rectangle starts inside the image and has a positive size.\<close>

definition origin_inside :: "CropConfig \<Rightarrow> image \<Rightarrow> bool" where
  "origin_inside c img =
     (0 \<le> crop_x c \<and> crop_x c < fst img \<and> 0 \<le> crop_y c \<and> crop_y c < snd img
      \<and> 0 < crop_width c \<and> 0 < crop_height c)"







section \<open>Concrete inputs\<close>

text \<open>\<^verbatim>\<open>DEFAULT_CONFIG\<close> of the scheduler, and a start of it without \<^verbatim>\<open>--once\<close> or
  \<^verbatim>\<open>--continuous\<close>.\<close>

definition DEFAULT_CONFIG :: AutoTraderConfig where
  "DEFAULT_CONFIG =
     \<lparr>intervalMinutes = 13,
      chartCaptureArgs = [''--method'', ''localStorage'', ''--multi-timeframe'', ''--timeframes'',
                          ''5m,15m,1h,2h,6h'', ''--crop-screenshots''],
      visionAiArgs = [],
      maxRetries = 3,
      retryDelayMs = 30000\<rparr>"

definition plain_flags :: trader_flags where
  "plain_flags = \<lparr>has_api_key = True, continuous = False, once = False\<rparr>"

text \<open>A result directory, listed in no particular order, whose latest analysis file
  carries the given \<^verbatim>\<open>nextCheckMinutes\<close>; an older one carries 45, another one cannot be
  read.\<close>

definition sample_entries :: "string list" where
  "sample_entries =
     [''analysis-2025-01-02T09-30-00.json'', ''notes.txt'',
      ''analysis-2025-01-03T08-15-00.json'', ''analysis-2025-01-03T08-15-00.txt'',
      ''analysis-2025-01-01T10-00-00.json'', ''my-analysis-2025-02-01T00-00-00.json'']"

definition sample_file :: "real \<Rightarrow> json" where
  "sample_file v =
     JObj [(''success'', JBool True),
           (''analysisData'', JObj [(''finalVerdict'',
              JObj [(''action'', JStr ''HOLD''), (''nextCheckMinutes'', JNum v)])])]"

definition sample_dir :: "real \<Rightarrow> analysis_dir" where
  "sample_dir v =
     \<lparr>dir_exists = True,
      dir_entries = Some sample_entries,
      file_json = (\<lambda>f. if f = ''analysis-2025-01-03T08-15-00.json'' then Some (sample_file v)
                        else if f = ''analysis-2025-01-01T10-00-00.json'' then Some (sample_file 45)
                        else None)\<rparr>"

text \<open>A cycle whose capture command succeeds at the second attempt, and a cycle whose
  analysis command fails at every attempt.\<close>

definition good_cycle :: cycle_env where
  "good_cycle = \<lparr>chart_exit = (\<lambda>k. k = 2), vision_exit = (\<lambda>k. True), cycle_throws = False,
                 results_dir = sample_dir 13\<rparr>"

definition bad_cycle :: cycle_env where
  "bad_cycle = \<lparr>chart_exit = (\<lambda>k. True), vision_exit = (\<lambda>k. False), cycle_throws = False,
                results_dir = sample_dir 13\<rparr>"

text \<open>Browser sessions, requests and worlds.\<close>

definition good_session :: session_env where
  "good_session = \<lparr>create_fails = None, page_fails = None, shot = (1920, 1080), close_fails = None\<rparr>"

definition all_good :: "nat \<Rightarrow> session_env" where
  "all_good i = good_session"

definition timeout_session :: session_env where
  "timeout_session = good_session\<lparr>page_fails := Some ''Timeout 30000ms exceeded''\<rparr>"

definition empty_world :: world where
  "empty_world = \<lparr>cwd = ''/app'', files = Map.empty, unwritable = (\<lambda>p. False),
                   configs = (\<lambda>r. DEFAULT_JUPITER_CROP_value), sharp_calls = []\<rparr>"

definition three_config :: MultiTimeframeConfig where
  "three_config = \<lparr>url = ''https://jup.ag/perps/long/SOL-SOL'',
                    timeframes = Some [''5m'', ''1h'', ''6h''],
                    cropScreenshots = False, cropConfig = None\<rparr>"

definition gap_config :: MultiTimeframeConfig where
  "gap_config = three_config\<lparr>timeframes := Some [''5m'', [], ''1h'']\<rparr>"

text \<open>Two screenshots of different sizes on disk, and the default crop rectangle.\<close>

definition two_shots :: world where
  "two_shots =
     \<lparr>cwd = ''/app'',
      files = [''/app/screenshots/jupiter-5m.png'' \<mapsto> (1200, 600),
               ''/app/screenshots/jupiter-1h.png'' \<mapsto> (1920, 1080)],
      unwritable = (\<lambda>p. p = ''/app/archive/locked.png''),
      configs = (\<lambda>r. DEFAULT_JUPITER_CROP_value),
      sharp_calls = []\<rparr>"

definition disabled_world :: world where
  "disabled_world = two_shots\<lparr>configs := (\<lambda>r. DEFAULT_JUPITER_CROP_value\<lparr>enabled := False\<rparr>)\<rparr>"

definition outside_world :: world where
  "outside_world =
     two_shots\<lparr>configs := (\<lambda>r. DEFAULT_JUPITER_CROP_value\<lparr>crop_x := 2000, crop_width := 100\<rparr>)\<rparr>"

text \<open>Replies of the reasoning service that follow the formats asked for in the prompts,
  the values they stand for, and a parser that knows these texts.\<close>

definition analysis_inner :: string where
  \<open>analysis_inner =
     ''"timeframe":"1h","trend":"bullish","strength":7,''
     @ ''"keyLevels":{"support":64000,"resistance":66500},''
     @ ''"indicators":{"volume":"high","bollinger":"expansion","momentum":"increasing"},''
     @ ''"signals":["breakout"],"confidence":8,"analysis":"Higher lows above support."''\<close>

definition analysis_object :: string where
  "analysis_object = CHR ''{'' # analysis_inner @ [CHR ''}'']"

definition analysis_reply :: string where
  "analysis_reply = ''Here is my analysis: '' @ analysis_object @ '' Ask me for more.''"


definition analysis_value :: json where
  "analysis_value =
     JObj [(''timeframe'', JStr ''1h''), (''trend'', JStr ''bullish''), (''strength'', JNum 7),
           (''keyLevels'', JObj [(''support'', JNum 64000), (''resistance'', JNum 66500)]),
           (''indicators'', JObj [(''volume'', JStr ''high''), (''bollinger'', JStr ''expansion''),
                                  (''momentum'', JStr ''increasing'')]),
           (''signals'', JArr [JStr ''breakout'']), (''confidence'', JNum 8),
           (''analysis'', JStr ''Higher lows above support.'')]"

definition second_object :: string where
  \<open>second_object =
     ''{"timeframe":"4h","trend":"neutral","strength":4,''
     @ ''"keyLevels":{"support":63000,"resistance":null},''
     @ ''"indicators":{"volume":"low","bollinger":"squeeze","momentum":"stable"},''
     @ ''"signals":[],"confidence":5,"analysis":"Range between the levels."}''\<close>

definition second_value :: json where
  "second_value =
     JObj [(''timeframe'', JStr ''4h''), (''trend'', JStr ''neutral''), (''strength'', JNum 4),
           (''keyLevels'', JObj [(''support'', JNum 63000), (''resistance'', JNull)]),
           (''indicators'', JObj [(''volume'', JStr ''low''), (''bollinger'', JStr ''squeeze''),
                                  (''momentum'', JStr ''stable'')]),
           (''signals'', JArr []), (''confidence'', JNum 5),
           (''analysis'', JStr ''Range between the levels.'')]"

definition decision_object :: string where
  \<open>decision_object =
     ''{"action":"long","confidence":7,"reasoning":"The trend is up.",''
     @ ''"entryPrice":65000,"stopLoss":64000,"takeProfit":67000,"riskReward":2,''
     @ ''"overallTrend":"bullish","marketStructure":"uptrend","warnings":[]}''\<close>

definition decision_value :: json where
  "decision_value =
     JObj [(''action'', JStr ''long''), (''confidence'', JNum 7),
           (''reasoning'', JStr ''The trend is up.''),
           (''entryPrice'', JNum 65000), (''stopLoss'', JNum 64000),
           (''takeProfit'', JNum 67000), (''riskReward'', JNum 2),
           (''overallTrend'', JStr ''bullish''), (''marketStructure'', JStr ''uptrend''),
           (''warnings'', JArr [])]"

definition synthesis_object :: string where
  \<open>synthesis_object =
     ''{"executiveSummary":"Long bias.","marketOverview":"Uptrend.",''
     @ ''"quantitativeMetrics":{"bullishSignals":1,"bearishSignals":0,"neutralSignals":0,''
     @ ''"avgConfidence":8,"timeframeAlignment":8},''
     @ ''"riskAssessment":{"riskLevel":"low","keyRisks":["reversal"],''
     @ ''"riskMitigation":["stop loss"]},''
     @ ''"strategicRecommendations":{"primary":"Buy.","alternative":"Wait.",''
     @ ''"timeHorizon":"days","positionSizing":"small"},''
     @ ''"nextSteps":["Watch the support."]}''\<close>

definition synthesis_value :: json where
  "synthesis_value =
     JObj [(''executiveSummary'', JStr ''Long bias.''), (''marketOverview'', JStr ''Uptrend.''),
           (''quantitativeMetrics'',
              JObj [(''bullishSignals'', JNum 1), (''bearishSignals'', JNum 0),
                    (''neutralSignals'', JNum 0), (''avgConfidence'', JNum 8),
                    (''timeframeAlignment'', JNum 8)]),
           (''riskAssessment'',
              JObj [(''riskLevel'', JStr ''low''), (''keyRisks'', JArr [JStr ''reversal'']),
                    (''riskMitigation'', JArr [JStr ''stop loss''])]),
           (''strategicRecommendations'',
              JObj [(''primary'', JStr ''Buy.''), (''alternative'', JStr ''Wait.''),
                    (''timeHorizon'', JStr ''days''), (''positionSizing'', JStr ''small'')]),
           (''nextSteps'', JArr [JStr ''Watch the support.''])]"

definition verdict_arguments :: string where
  \<open>verdict_arguments =
     ''{"action":"LONG","confidence":85,"positionSize":10,"timeHorizon":"short",''
     @ ''"riskLevel":"LOW","keyReason":"trend","criticalWarnings":[]}''\<close>

definition verdict_value :: json where
  "verdict_value =
     JObj [(''action'', JStr ''LONG''), (''confidence'', JNum 85), (''positionSize'', JNum 10),
           (''timeHorizon'', JStr ''short''), (''riskLevel'', JStr ''LOW''),
           (''keyReason'', JStr ''trend''), (''criticalWarnings'', JArr [])]"

definition sample_parse :: "string \<Rightarrow> string + json" where
  "sample_parse s =
     (if s = analysis_object then Inr analysis_value
      else if s = second_object then Inr second_value
      else if s = decision_object then Inr decision_value
      else if s = synthesis_object then Inr synthesis_value
      else if s = verdict_arguments then Inr verdict_value
      else if s = ''{}'' then Inr (JObj [])
      else if s = ''null'' then Inr JNull
      else Inl ''Unexpected token'')"

text \<open>The conversions, on the numbers and strings named here.\<close>

definition sample_conversions :: conversions where
  "sample_conversions =
     \<lparr>number_string = (\<lambda>n. if n = 85 then ''85'' else if n = 0 then ''0'' else ''NaN''),
      string_number = (\<lambda>s. if s = ''85'' then Number 85 else if s = [] then Number 0
                            else NotANumber)\<rparr>"

text \<open>A machine whose system sound plays, and a Linux machine without sound files and
  without the program \<^verbatim>\<open>paplay\<close>.\<close>

definition sounding_machine :: sound_env where
  "sounding_machine =
     \<lparr>sound_enabled = True, fallbackToSystemBeep = True, platform = Darwin,
      soundFileExists = (\<lambda>f. False), playerError = None,
      systemChild = Closed 0, beepChild = Closed 0\<rparr>"

definition bare_linux :: sound_env where
  "bare_linux =
     \<lparr>sound_enabled = True, fallbackToSystemBeep = True, platform = Linux,
      soundFileExists = (\<lambda>f. False), playerError = None,
      systemChild = ErrorEvent ''spawn paplay ENOENT'',
      beepChild = ErrorEvent ''spawn paplay ENOENT''\<rparr>"

text \<open>A run in which one screenshot exists, every stage gets a well-formed reply and the
  result files can be written.\<close>

definition smooth_env :: vision_env where
  "smooth_env =
     \<lparr>apiKeySet = True,
      fileExists = (\<lambda>p. p = ''screenshots/jupiter-5m.png''),
      chartReply = (\<lambda>p tf. Content (Some analysis_reply)),
      decisionReply = (\<lambda>analyses. Content (Some decision_object)),
      comprehensiveReply = (\<lambda>analyses decision. Content (Some synthesis_object)),
      verdictReply = (\<lambda>analyses decision synthesis. FunctionCall (Some verdict_arguments)),
      parse = sample_parse,
      conv = sample_conversions,
      outputDirExists = False,
      mkdir_fails = None,
      json_write_fails = None,
      text_write_fails = None,
      sounds = sounding_machine\<rparr>"

text \<open>The same run with a reply that holds no object, with a reply that has braces behind
  the object, and on the machine without a player.\<close>

definition unreadable_env :: vision_env where
  "unreadable_env = smooth_env\<lparr>chartReply := (\<lambda>p tf. Content (Some ''I cannot read this chart.''))\<rparr>"


definition bare_linux_env :: vision_env where
  "bare_linux_env = smooth_env\<lparr>sounds := bare_linux\<rparr>"

definition one_timeframe :: VisionAnalysisConfig where
  "one_timeframe =
     \<lparr>screenshotsDir = Some ''screenshots'', va_timeframes = Some [''5m''],
      soundEffects = Some True, saveJson = True, saveText = True\<rparr>"






text \<open>A configuration that asks for no sound and no result files.\<close>

definition quiet_timeframe :: VisionAnalysisConfig where
  "quiet_timeframe =
     \<lparr>screenshotsDir = Some ''screenshots'', va_timeframes = Some [''5m''],
      soundEffects = Some False, saveJson = False, saveText = False\<rparr>"



section \<open>Properties of the scheduler\<close>

lemma sorted_le_last:
  fixes ys :: "string list"
  shows "sorted ys \<Longrightarrow> y \<in> set ys \<Longrightarrow> y \<le> last ys"
  by (induction ys) auto

lemma greatest_first:
  fixes xs :: "string list"
  assumes "m \<in> set xs" and "\<forall>x\<in>set xs. x \<le> m"
  shows "\<exists>older. rev (sort xs) = m # older"
proof -
  have ne: "sort xs \<noteq> []"
    using assms(1) by (metis empty_iff list.set(1) set_sort)
  have "last (sort xs) \<in> set xs"
    using ne by (metis last_in_set set_sort)
  then have le: "last (sort xs) \<le> m"
    using assms(2) by blast
  have "m \<in> set (sort xs)"
    using assms(1) by simp
  then have "m \<le> last (sort xs)"
    using sorted_le_last [OF sorted_sort] by blast
  with le have "last (sort xs) = m"
    by simp
  then have "hd (rev (sort xs)) = m"
    using ne by (simp add: hd_rev)
  moreover have "rev (sort xs) \<noteq> []"
    using ne by simp
  ultimately show ?thesis
    by (metis list.collapse)
qed

lemma extract_numeric:
  assumes "dir_exists d" and "dir_entries d = Some entries"
    and "latest \<in> set entries"
    and "startsWith latest ''analysis-''" and "endsWith latest ''.json''"
    and "\<forall>f\<in>set entries. startsWith f ''analysis-'' \<and> endsWith f ''.json'' \<longrightarrow> f \<le> latest"
    and "file_json d latest = Some j"
    and "opt_chain (opt_chain (opt_chain (Some j) ''analysisData'') ''finalVerdict'')
           ''nextCheckMinutes'' = Some (JNum v)"
  shows "extractNextCheckInterval d dflt = max 2 (min 60 v)"
proof -
  let ?xs = "filter (\<lambda>file. startsWith file ''analysis-'' \<and> endsWith file ''.json'') entries"
  have "latest \<in> set ?xs" and "\<forall>x\<in>set ?xs. x \<le> latest"
    using assms(3-6) by auto
  then obtain older where "analysis_files entries = latest # older"
    using greatest_first [of latest ?xs] by (auto simp: analysis_files_def)
  moreover have "latest \<noteq> []"
    using assms(4) by (auto simp: startsWith_def)
  ultimately show ?thesis
    using assms(1,2,7,8)
    by (simp add: extractNextCheckInterval_def MIN_INTERVAL_def MAX_INTERVAL_def)
qed

text \<open>
  Claim C3. Let \<open>latest\<close> be the most recent persisted analysis file: the greatest name,
  in the order of the code units, among the entries of the result directory that start
  with \<^verbatim>\<open>analysis-\<close> and end with \<^verbatim>\<open>.json\<close> (the names carry the time stamp of the run).
  Whenever that file holds a number \<open>v\<close> under
  \<^verbatim>\<open>analysisData.finalVerdict.nextCheckMinutes\<close>, \<^verbatim>\<open>extractNextCheckInterval\<close> returns
  \<open>max 2 (min 60 v)\<close>: 60 for 120, 2 for 1, and 13 for 13.
\<close>

theorem C3_next_check_interval_clamped:
  assumes "dir_exists d" and "dir_entries d = Some entries"
    and "latest \<in> set entries"
    and "startsWith latest ''analysis-''" and "endsWith latest ''.json''"
    and "\<forall>f\<in>set entries. startsWith f ''analysis-'' \<and> endsWith f ''.json'' \<longrightarrow> f \<le> latest"
    and "file_json d latest = Some j"
    and "opt_chain (opt_chain (opt_chain (Some j) ''analysisData'') ''finalVerdict'')
           ''nextCheckMinutes'' = Some (JNum v)"
  shows "extractNextCheckInterval d dflt = max 2 (min 60 v)
       \<and> (v = 120 \<longrightarrow> extractNextCheckInterval d dflt = 60)
       \<and> (v = 1 \<longrightarrow> extractNextCheckInterval d dflt = 2)
       \<and> (v = 13 \<longrightarrow> extractNextCheckInterval d dflt = 13)"
  using extract_numeric [OF assms, of dflt] by simp

lemma sample_latest:
  "''analysis-2025-01-03T08-15-00.json'' \<in> set sample_entries"
  "startsWith ''analysis-2025-01-03T08-15-00.json'' ''analysis-''"
  "endsWith ''analysis-2025-01-03T08-15-00.json'' ''.json''"
  "\<forall>f\<in>set sample_entries. startsWith f ''analysis-'' \<and> endsWith f ''.json'' \<longrightarrow>
       f \<le> ''analysis-2025-01-03T08-15-00.json''"
  unfolding sample_entries_def by code_simp+

theorem C3_next_check_interval_witness:
  "extractNextCheckInterval (sample_dir 120) 13 = 60
   \<and> extractNextCheckInterval (sample_dir 1) 13 = 2
   \<and> extractNextCheckInterval (sample_dir 13) 5 = 13
   \<and> extractNextCheckInterval (sample_dir 7.5) 13 = 7.5"
proof -
  have a: "\<And>v. dir_exists (sample_dir v)"
    by (simp add: sample_dir_def)
  have b: "\<And>v. dir_entries (sample_dir v) = Some sample_entries"
    by (simp add: sample_dir_def)
  have d: "\<And>v. file_json (sample_dir v) ''analysis-2025-01-03T08-15-00.json'' = Some (sample_file v)"
    by (simp add: sample_dir_def)
  have e: "\<And>v. opt_chain (opt_chain (opt_chain (Some (sample_file v)) ''analysisData'')
                  ''finalVerdict'') ''nextCheckMinutes'' = Some (JNum v)"
    by (simp add: sample_file_def)
  note t = C3_next_check_interval_clamped [OF a b sample_latest d e]
  show ?thesis
    using t [of 120 13] t [of 1 13] t [of 13 5] t [of "7.5" 13] by simp
qed

lemma trader_loop_append:
  "trader_loop config fl st (pre @ es) =
     (case trader_loop config fl st pre of
        (Running, st') \<Rightarrow> trader_loop config fl st' es
      | stopped \<Rightarrow> stopped)"
  by (induction pre arbitrary: st) (auto split: prod.splits loop_status.splits)

lemma trader_step_started:
  "trader_step config fl st e = (s, st') \<Longrightarrow>
   cyclesStarted st' = cyclesStarted st @ [cycleNumber st]"
  by (auto simp: trader_step_def Let_def split: if_splits)

lemma trader_step_success:
  "\<not> cycle_failed config e \<Longrightarrow> trader_step config fl st e = (s, st') \<Longrightarrow>
   consecutiveFailures st' = 0"
  by (auto simp: trader_step_def cycle_failed_def Let_def split: if_splits)

lemma trader_step_failure:
  "cycle_failed config e \<Longrightarrow>
   trader_step config fl st e =
     (if consecutiveFailures st + 1 \<ge> 3 then TooManyFailures else Running,
      snd (trader_step config fl st e))
   \<and> consecutiveFailures (snd (trader_step config fl st e)) = consecutiveFailures st + 1"
  by (auto simp: trader_step_def cycle_failed_def Let_def maxConsecutiveFailures_def)

lemma trader_loop_started:
  "trader_loop config fl st es = (Running, st') \<Longrightarrow>
   length (cyclesStarted st') = length (cyclesStarted st) + length es"
proof (induction es arbitrary: st)
  case Nil
  then show ?case by simp
next
  case (Cons e es)
  obtain s st1 where step: "trader_step config fl st e = (s, st1)"
    by force
  with Cons.prems have s: "s = Running"
    by (auto split: loop_status.splits)
  with Cons.prems step have "trader_loop config fl st1 es = (Running, st')"
    by simp
  from Cons.IH [OF this] trader_step_started [OF step] show ?case
    by simp
qed

lemma trader_loop_last_success:
  "trader_loop config fl st (pre @ [e]) = (s, st') \<Longrightarrow> \<not> cycle_failed config e \<Longrightarrow>
   s = Running \<Longrightarrow> consecutiveFailures st' = 0"
  by (auto simp: trader_loop_append split: prod.splits loop_status.splits
        dest: trader_step_success)

lemma three_failures_stop:
  assumes "consecutiveFailures st = 0"
    and "cycle_failed config e1" and "cycle_failed config e2" and "cycle_failed config e3"
  shows "\<exists>st'. trader_loop config fl st (e1 # e2 # e3 # rest) = (TooManyFailures, st')
     \<and> consecutiveFailures st' = 3
     \<and> length (cyclesStarted st') = length (cyclesStarted st) + 3"
proof -
  obtain st1 where 1: "trader_step config fl st e1 = (Running, st1)" "consecutiveFailures st1 = 1"
    using trader_step_failure [OF assms(2), of fl st] assms(1) by auto
  obtain st2 where 2: "trader_step config fl st1 e2 = (Running, st2)" "consecutiveFailures st2 = 2"
    using trader_step_failure [OF assms(3), of fl st1] 1(2) by auto
  obtain st3 where 3: "trader_step config fl st2 e3 = (TooManyFailures, st3)"
    "consecutiveFailures st3 = 3"
    using trader_step_failure [OF assms(4), of fl st2] 2(2) by auto
  from 1 2 3 have "trader_loop config fl st (e1 # e2 # e3 # rest) = (TooManyFailures, st3)"
    by simp
  moreover have "length (cyclesStarted st3) = length (cyclesStarted st) + 3"
    using trader_step_started [OF 1(1)] trader_step_started [OF 2(1)]
      trader_step_started [OF 3(1)] by simp
  ultimately show ?thesis
    using 3(2) by blast
qed

lemma good_cycle_succeeds: "\<not> cycle_failed DEFAULT_CONFIG good_cycle"
  by (simp add: cycle_failed_def runAnalysisCycle_def executeWithRetry_def DEFAULT_CONFIG_def
        good_cycle_def eval_nat_numeral)

lemma bad_cycle_fails: "cycle_failed DEFAULT_CONFIG bad_cycle"
  by (simp add: cycle_failed_def runAnalysisCycle_def executeWithRetry_def DEFAULT_CONFIG_def
        bad_cycle_def eval_nat_numeral)

lemma one_good_cycle_runs: "fst (runAutoTrader DEFAULT_CONFIG plain_flags [good_cycle]) = Running"
  using good_cycle_succeeds
  by (simp add: runAutoTrader_def plain_flags_def trader_step_def cycle_failed_def Let_def
        initial_state_def)

text \<open>
  Claim C2. In \<^verbatim>\<open>runAutoTrader\<close>, every successful cycle leaves the counter of
  consecutive failures at 0, whatever it was before; so the counter is 0 while the loop runs
  after a successful cycle (and before the first cycle). Three failed cycles in a row from
  there end the loop with the counter at the threshold 3, and the third of them is the last
  cycle started, whatever cycles the environment would have offered next.
\<close>

theorem C2_circuit_breaker:
  assumes key: "has_api_key fl"
    and pre: "runAutoTrader config fl pre = (Running, st)"
    and last_ok: "pre = [] \<or> \<not> cycle_failed config (last pre)"
    and f1: "cycle_failed config e1" and f2: "cycle_failed config e2"
    and f3: "cycle_failed config e3"
  shows "consecutiveFailures st = 0
     \<and> (\<not> cycle_failed config e \<longrightarrow> consecutiveFailures (snd (trader_step config fl st0 e)) = 0)
     \<and> (\<exists>st'. runAutoTrader config fl (pre @ e1 # e2 # e3 # rest) = (TooManyFailures, st')
            \<and> consecutiveFailures st' = 3
            \<and> length (cyclesStarted st') = length pre + 3)"
proof -
  have reset: "\<not> cycle_failed config e \<longrightarrow>
      consecutiveFailures (snd (trader_step config fl st0 e)) = 0"
    using trader_step_success [of config e fl st0] by (metis prod.collapse)
  from key pre have run: "trader_loop config fl initial_state pre = (Running, st)"
    by (simp add: runAutoTrader_def)
  have zero: "consecutiveFailures st = 0"
  proof (cases "pre = []")
    case True
    with run show ?thesis
      by (auto simp: initial_state_def)
  next
    case False
    then obtain ys y where "pre = ys @ [y]"
      by (metis append_butlast_last_id)
    with last_ok run show ?thesis
      using trader_loop_last_success by fastforce
  qed
  have len: "length (cyclesStarted st) = length pre"
    using trader_loop_started [OF run] by (simp add: initial_state_def)
  obtain st' where "trader_loop config fl st (e1 # e2 # e3 # rest) = (TooManyFailures, st')"
    "consecutiveFailures st' = 3" "length (cyclesStarted st') = length (cyclesStarted st) + 3"
    using three_failures_stop [OF zero f1 f2 f3] by blast
  with run len key
  have "runAutoTrader config fl (pre @ e1 # e2 # e3 # rest) = (TooManyFailures, st')
      \<and> consecutiveFailures st' = 3 \<and> length (cyclesStarted st') = length pre + 3"
    by (simp add: runAutoTrader_def trader_loop_append)
  with zero reset show ?thesis
    by blast
qed

theorem C2_circuit_breaker_witness:
  "consecutiveFailures (snd (runAutoTrader DEFAULT_CONFIG plain_flags [good_cycle])) = 0
   \<and> consecutiveFailures (snd (trader_step DEFAULT_CONFIG plain_flags
          (initial_state\<lparr>consecutiveFailures := 2\<rparr>) good_cycle)) = 0
   \<and> (\<exists>st'. runAutoTrader DEFAULT_CONFIG plain_flags
               ([good_cycle] @ bad_cycle # bad_cycle # bad_cycle # [good_cycle, good_cycle])
             = (TooManyFailures, st')
          \<and> consecutiveFailures st' = 3 \<and> length (cyclesStarted st') = length [good_cycle] + 3)"
proof -
  have key: "has_api_key plain_flags"
    by (simp add: plain_flags_def)
  have pre: "runAutoTrader DEFAULT_CONFIG plain_flags [good_cycle] =
      (Running, snd (runAutoTrader DEFAULT_CONFIG plain_flags [good_cycle]))"
    using one_good_cycle_runs by (metis prod.collapse)
  have last_ok: "[good_cycle] = [] \<or> \<not> cycle_failed DEFAULT_CONFIG (last [good_cycle])"
    using good_cycle_succeeds by simp
  from C2_circuit_breaker [OF key pre last_ok bad_cycle_fails bad_cycle_fails bad_cycle_fails,
      of good_cycle "initial_state\<lparr>consecutiveFailures := 2\<rparr>" "[good_cycle, good_cycle]"]
    good_cycle_succeeds
  show ?thesis
    by blast
qed

section \<open>Properties of the capture orchestrator\<close>

lemma capture_outcome_of: "fst (captureTimeframeScreenshot w tf env) = outcome_of tf env"
  by (simp add: captureTimeframeScreenshot_def outcome_of_def Let_def split: option.splits)

lemma outcome_of_label: "timeframe (outcome_of tf env) = tf"
  by (simp add: outcome_of_def failed_capture_def good_capture_def split: option.splits)

lemma outcome_of_failed: "\<not> success (outcome_of tf env) \<Longrightarrow> error (outcome_of tf env) \<noteq> None"
  by (simp add: outcome_of_def failed_capture_def good_capture_def split: option.splits)

lemma settle_slots:
  "settle w tfs envs slots order = (slots', w') \<Longrightarrow> length slots = length tfs \<Longrightarrow>
   length slots' = length tfs \<and>
   (\<forall>i<length tfs. slots' ! i =
       (if i \<in> set order then Some (outcome_of (tfs ! i) (envs i)) else slots ! i))"
proof (induction order arbitrary: w slots)
  case Nil
  then show ?case by simp
next
  case (Cons j order)
  show ?case
  proof (cases "j < length tfs")
    case False
    with Cons.prems have "settle w tfs envs slots order = (slots', w')"
      by simp
    from Cons.IH [OF this Cons.prems(2)] False show ?thesis
      by auto
  next
    case True
    obtain r w1 where cap: "captureTimeframeScreenshot w (tfs ! j) (envs j) = (r, w1)"
      by force
    then have r: "r = outcome_of (tfs ! j) (envs j)"
      using capture_outcome_of [of w "tfs ! j" "envs j"] by simp
    from True cap Cons.prems
    have "settle w1 tfs envs (slots[j := Some r]) order = (slots', w')"
      by simp
    from Cons.IH [OF this] Cons.prems(2)
    have "length slots' = length tfs" and
      "\<forall>i<length tfs. slots' ! i =
         (if i \<in> set order then Some (outcome_of (tfs ! i) (envs i))
          else (slots[j := Some r]) ! i)"
      by simp_all
    then show ?thesis
      using r Cons.prems(2) by (auto simp: nth_list_update)
  qed
qed

lemma those_map_Some: "those (map Some ys) = Some ys"
  by (induction ys) simp_all

lemma those_all_Some:
  assumes "\<forall>i<length xs. xs ! i = Some (f i)"
  shows "those xs = Some (map f [0..<length xs])"
proof -
  have "xs = map Some (map f [0..<length xs])"
    using assms by (intro nth_equalityI) simp_all
  then show ?thesis
    using those_map_Some by metis
qed

lemma parallel_results:
  assumes "{..<length (requested config)} \<subseteq> set order"
  shows "\<exists>res w'. executeMultiTimeframeAutomation_parallel w config envs order = Some (res, w')
     \<and> results res =
         map (\<lambda>i. outcome_of (requested config ! i) (envs i)) [0..<length (requested config)]"
proof -
  let ?tfs = "requested config"
  obtain slots w1 where st: "settle w ?tfs envs (replicate (length ?tfs) None) order = (slots, w1)"
    by force
  from settle_slots [OF st] assms
  have len: "length slots = length ?tfs"
    and "\<forall>i<length slots. slots ! i = Some (outcome_of (?tfs ! i) (envs i))"
    by auto
  from those_all_Some [OF this(2)] len
  have "those slots = Some (map (\<lambda>i. outcome_of (?tfs ! i) (envs i)) [0..<length ?tfs])"
    by simp
  with st show ?thesis
    by (simp add: executeMultiTimeframeAutomation_parallel_def requested_def Let_def)
qed

lemma sequential_loop_results:
  "sequential_loop w envs i tfs rs n = (rs', n', w') \<Longrightarrow>
   rs' = rs @ map (\<lambda>(j, tf). iteration_outcome tf (envs j))
                (filter (\<lambda>(j, tf). tf \<noteq> []) (enumerate i tfs))"
proof (induction tfs arbitrary: w i rs n)
  case Nil
  then show ?case by simp
next
  case (Cons tf tfs)
  show ?case
  proof (cases "tf = []")
    case True
    with Cons.prems have "sequential_loop w envs (i + 1) tfs rs n = (rs', n', w')"
      by simp
    from Cons.IH [OF this] True show ?thesis
      by simp
  next
    case False
    show ?thesis
    proof (cases "page_fails (envs i)")
      case None
      with False Cons.prems
      have "sequential_loop (write_file w (screenshotPath tf) (shot (envs i)))
              envs (i + 1) tfs (rs @ [good_capture tf (screenshotPath tf)]) (n + 1) = (rs', n', w')"
        by simp
      from Cons.IH [OF this] False None show ?thesis
        by (simp add: good_capture_def iteration_outcome_def)
    next
      case (Some msg)
      with False Cons.prems
      have "sequential_loop w envs (i + 1) tfs (rs @ [failed_capture tf msg]) n = (rs', n', w')"
        by simp
      from Cons.IH [OF this] False Some show ?thesis
        by (simp add: failed_capture_def iteration_outcome_def)
    qed
  qed
qed

lemma sequential_results:
  "results (fst (executeMultiTimeframeAutomation_sequential w config envs))
     = map (\<lambda>(j, tf). iteration_outcome tf (envs j))
         (filter (\<lambda>(j, tf). tf \<noteq> []) (enumerate 0 (requested config)))"
proof -
  obtain rs n w1 where l: "sequential_loop w envs 0 (requested config) [] 0 = (rs, n, w1)"
    by (metis prod_cases3)
  from sequential_loop_results [OF l] l show ?thesis
    by (simp add: executeMultiTimeframeAutomation_sequential_def requested_def Let_def)
qed

lemma filter_enumerate_labels:
  "map snd (filter (\<lambda>(j, tf). P tf) (enumerate i tfs)) = filter P tfs"
  by (induction tfs arbitrary: i) auto

lemma filter_enumerate_all:
  "\<forall>tf\<in>set tfs. P tf \<Longrightarrow> filter (\<lambda>(j, tf). P tf) (enumerate i tfs) = enumerate i tfs"
  by (induction tfs arbitrary: i) auto

lemma iteration_outcome_facts:
  "timeframe (iteration_outcome tf env) = tf"
  "page_fails env = Some msg \<Longrightarrow>
     \<not> success (iteration_outcome tf env) \<and> error (iteration_outcome tf env) = Some msg"
  "page_fails env = None \<Longrightarrow>
     success (iteration_outcome tf env)
     \<and> screenshot (iteration_outcome tf env) = Some (screenshotPath tf)"
  by (simp_all add: iteration_outcome_def split: option.splits)

text \<open>
  Claim C1, as stated, fails for the sequential implementation: it skips an empty label
  (\<^verbatim>\<open>if (!timeframe) continue;\<close>), and \<^verbatim>\<open>"5m,,1h".split(",")\<close> holds one. Three
  timeframes are requested and two entries come back.
\<close>

theorem C1_sequential_skips_empty_label:
  "requested gap_config = [''5m'', [], ''1h'']
   \<and> map timeframe (results (fst (executeMultiTimeframeAutomation_sequential
                                    empty_world gap_config all_good)))
       = [''5m'', ''1h'']
   \<and> length (results (fst (executeMultiTimeframeAutomation_sequential
                              empty_world gap_config all_good)))
       \<noteq> length (requested gap_config)"
  by (simp add: executeMultiTimeframeAutomation_sequential_def requested_def gap_config_def
        three_config_def all_good_def good_session_def good_capture_def Let_def)

text \<open>
  Claim C1, amended. In the parallel implementation, whenever every session settles, in
  whatever order, the result list has one entry per requested timeframe, entry \<open>i\<close> is the
  outcome of session \<open>i\<close> and carries the \<open>i\<close>-th label, and a failed session contributes an
  entry with \<open>success = False\<close> and an error message. In the sequential implementation the
  result list has one entry per non-empty requested label, in the order of the request:
  the entry of an iteration that raised has \<open>success = False\<close> and the message of the error,
  the entry of any other iteration has \<open>success = True\<close> and the path of its screenshot. So
  its length is the number of requested timeframes, and entry \<open>i\<close> belongs to the \<open>i\<close>-th
  timeframe, when no requested label is empty.
\<close>

theorem C1_results_follow_request:
  assumes "{..<length (requested config)} \<subseteq> set order"
  shows "(\<exists>res w'. executeMultiTimeframeAutomation_parallel w config envs order = Some (res, w')
            \<and> length (results res) = length (requested config)
            \<and> (\<forall>i<length (requested config).
                   results res ! i = outcome_of (requested config ! i) (envs i)
                 \<and> timeframe (results res ! i) = requested config ! i
                 \<and> (\<not> success (results res ! i) \<longrightarrow> error (results res ! i) \<noteq> None)))
       \<and> results (fst (executeMultiTimeframeAutomation_sequential w config envs))
           = map (\<lambda>(j, tf). iteration_outcome tf (envs j))
               (filter (\<lambda>(j, tf). tf \<noteq> []) (enumerate 0 (requested config)))
       \<and> map timeframe (results (fst (executeMultiTimeframeAutomation_sequential w config envs)))
           = filter (\<lambda>tf. tf \<noteq> []) (requested config)
       \<and> ([] \<notin> set (requested config) \<longrightarrow>
             length (results (fst (executeMultiTimeframeAutomation_sequential w config envs)))
               = length (requested config)
           \<and> (\<forall>i<length (requested config).
                 timeframe (results (fst (executeMultiTimeframeAutomation_sequential w config envs)) ! i)
                   = requested config ! i
               \<and> (\<forall>msg. page_fails (envs i) = Some msg \<longrightarrow>
                     \<not> success (results (fst (executeMultiTimeframeAutomation_sequential w config envs)) ! i)
                   \<and> error (results (fst (executeMultiTimeframeAutomation_sequential w config envs)) ! i)
                       = Some msg)
               \<and> (page_fails (envs i) = None \<longrightarrow>
                     success (results (fst (executeMultiTimeframeAutomation_sequential w config envs)) ! i)
                   \<and> screenshot (results (fst (executeMultiTimeframeAutomation_sequential w config envs)) ! i)
                       = Some (screenshotPath (requested config ! i)))))"
proof -
  let ?T = "requested config"
  let ?rs = "results (fst (executeMultiTimeframeAutomation_sequential w config envs))"
  obtain res w' where par: "executeMultiTimeframeAutomation_parallel w config envs order = Some (res, w')"
    and rs: "results res = map (\<lambda>i. outcome_of (?T ! i) (envs i)) [0..<length ?T]"
    using parallel_results [OF assms] by blast
  have len: "length (results res) = length ?T"
    using rs by simp
  have each: "\<forall>i<length ?T.
       results res ! i = outcome_of (?T ! i) (envs i)
     \<and> timeframe (results res ! i) = ?T ! i
     \<and> (\<not> success (results res ! i) \<longrightarrow> error (results res ! i) \<noteq> None)"
    using rs outcome_of_label outcome_of_failed by simp
  have parallel: "\<exists>res w'. executeMultiTimeframeAutomation_parallel w config envs order = Some (res, w')
            \<and> length (results res) = length ?T
            \<and> (\<forall>i<length ?T.
                   results res ! i = outcome_of (?T ! i) (envs i)
                 \<and> timeframe (results res ! i) = ?T ! i
                 \<and> (\<not> success (results res ! i) \<longrightarrow> error (results res ! i) \<noteq> None))"
    using par len each by blast
  have seq: "?rs = map (\<lambda>(j, tf). iteration_outcome tf (envs j))
               (filter (\<lambda>(j, tf). tf \<noteq> []) (enumerate 0 ?T))"
    by (rule sequential_results)
  have "map timeframe ?rs = map snd (filter (\<lambda>(j, tf). tf \<noteq> []) (enumerate 0 ?T))"
    unfolding seq by (simp add: iteration_outcome_facts(1) case_prod_beta comp_def)
  then have labels: "map timeframe ?rs = filter (\<lambda>tf. tf \<noteq> []) ?T"
    by (simp add: filter_enumerate_labels)
  have full: "length ?rs = length ?T
           \<and> (\<forall>i<length ?T.
                 timeframe (?rs ! i) = ?T ! i
               \<and> (\<forall>msg. page_fails (envs i) = Some msg \<longrightarrow>
                     \<not> success (?rs ! i) \<and> error (?rs ! i) = Some msg)
               \<and> (page_fails (envs i) = None \<longrightarrow>
                     success (?rs ! i) \<and> screenshot (?rs ! i) = Some (screenshotPath (?T ! i))))"
    if "[] \<notin> set ?T"
  proof -
    from that have "\<forall>tf\<in>set ?T. tf \<noteq> []"
      by auto
    then have "?rs = map (\<lambda>(j, tf). iteration_outcome tf (envs j)) (enumerate 0 ?T)"
      using seq filter_enumerate_all [of ?T "\<lambda>tf. tf \<noteq> []" 0] by simp
    then have l: "length ?rs = length ?T"
      and n: "\<forall>i<length ?T. ?rs ! i = iteration_outcome (?T ! i) (envs i)"
      by (simp_all add: nth_enumerate_eq)
    from n iteration_outcome_facts have "\<forall>i<length ?T.
                 timeframe (?rs ! i) = ?T ! i
               \<and> (\<forall>msg. page_fails (envs i) = Some msg \<longrightarrow>
                     \<not> success (?rs ! i) \<and> error (?rs ! i) = Some msg)
               \<and> (page_fails (envs i) = None \<longrightarrow>
                     success (?rs ! i) \<and> screenshot (?rs ! i) = Some (screenshotPath (?T ! i)))"
      by simp
    with l show ?thesis
      by blast
  qed
  from parallel seq labels full show ?thesis
    by blast
qed

theorem C1_results_follow_request_witness:
  "(\<exists>res w'. executeMultiTimeframeAutomation_parallel empty_world three_config
               (\<lambda>i. if i = 1 then timeout_session else good_session) [2, 0, 1] = Some (res, w')
          \<and> map timeframe (results res) = [''5m'', ''1h'', ''6h'']
          \<and> map success (results res) = [True, False, True]
          \<and> error (results res ! 1) = Some ''Timeout 30000ms exceeded'')
   \<and> results (fst (executeMultiTimeframeAutomation_sequential empty_world
          three_config (\<lambda>i. if i = 1 then timeout_session else good_session)))
       = [\<lparr>timeframe = ''5m'', success = True,
            screenshot = Some ''screenshots/jupiter-5m.png'', error = None\<rparr>,
          \<lparr>timeframe = ''1h'', success = False, screenshot = None,
            error = Some ''Timeout 30000ms exceeded''\<rparr>,
          \<lparr>timeframe = ''6h'', success = True,
            screenshot = Some ''screenshots/jupiter-6h.png'', error = None\<rparr>]"
proof -
  have req: "requested three_config = [''5m'', ''1h'', ''6h'']"
    by (simp add: requested_def three_config_def)
  have cover: "{..<length (requested three_config)} \<subseteq> set [2, 0, 1::nat]"
    unfolding req by auto
  note t = C1_results_follow_request [OF cover, of empty_world
      "\<lambda>i. if i = 1 then timeout_session else good_session"]
  from t obtain res w' where
    par: "executeMultiTimeframeAutomation_parallel empty_world three_config
            (\<lambda>i. if i = 1 then timeout_session else good_session) [2, 0, 1] = Some (res, w')"
    and len: "length (results res) = length (requested three_config)"
    and each: "\<forall>i<length (requested three_config).
        results res ! i = outcome_of (requested three_config ! i)
                             (if i = 1 then timeout_session else good_session)"
    by blast
  from len req have l3: "length (results res) = 3"
    by simp
  from each req have e0: "results res ! 0 = outcome_of ''5m'' good_session"
    and e1: "results res ! 1 = outcome_of ''1h'' timeout_session"
    and e2: "results res ! 2 = outcome_of ''6h'' good_session"
    by simp_all
  have "results res = [results res ! 0, results res ! 1, results res ! 2]"
    using l3 by (intro nth_equalityI)
      (auto simp: nth_Cons' numeral_3_eq_3 numeral_2_eq_2 less_Suc_eq)
  then have "results res = [outcome_of ''5m'' good_session, outcome_of ''1h'' timeout_session,
      outcome_of ''6h'' good_session]"
    using e0 e1 e2 by simp
  then have p: "map timeframe (results res) = [''5m'', ''1h'', ''6h'']
      \<and> map success (results res) = [True, False, True]
      \<and> error (results res ! 1) = Some ''Timeout 30000ms exceeded''"
    by (simp add: outcome_of_def good_session_def timeout_session_def good_capture_def
          failed_capture_def)
  from t have "results (fst (executeMultiTimeframeAutomation_sequential empty_world
          three_config (\<lambda>i. if i = 1 then timeout_session else good_session)))
       = map (\<lambda>(j, tf). iteration_outcome tf (if j = 1 then timeout_session else good_session))
           (filter (\<lambda>(j, tf). tf \<noteq> []) (enumerate 0 (requested three_config)))"
    by blast
  then have q: "results (fst (executeMultiTimeframeAutomation_sequential empty_world
          three_config (\<lambda>i. if i = 1 then timeout_session else good_session)))
       = [\<lparr>timeframe = ''5m'', success = True,
            screenshot = Some ''screenshots/jupiter-5m.png'', error = None\<rparr>,
          \<lparr>timeframe = ''1h'', success = False, screenshot = None,
            error = Some ''Timeout 30000ms exceeded''\<rparr>,
          \<lparr>timeframe = ''6h'', success = True,
            screenshot = Some ''screenshots/jupiter-6h.png'', error = None\<rparr>]"
    unfolding req
    by (simp add: iteration_outcome_def good_session_def timeout_session_def screenshotPath_def)
  from par p
  have "\<exists>res w'. executeMultiTimeframeAutomation_parallel empty_world three_config
               (\<lambda>i. if i = 1 then timeout_session else good_session) [2, 0, 1] = Some (res, w')
          \<and> map timeframe (results res) = [''5m'', ''1h'', ''6h'']
          \<and> map success (results res) = [True, False, True]
          \<and> error (results res ! 1) = Some ''Timeout 30000ms exceeded''"
    by auto
  then show ?thesis
    using q by (rule conjI)
qed

section \<open>Properties of the cropping\<close>

lemma cropImage_disabled:
  "\<not> enabled (configs w r) \<Longrightarrow> cropImage w inputPath outputPath r = (Inr inputPath, w)"
  by (simp add: cropImage_def)

lemma cropImage_missing:
  "enabled (configs w r) \<Longrightarrow> file_at w inputPath = None \<Longrightarrow>
   cropImage w inputPath outputPath r = (Inl (''Input image not found: '' @ inputPath), w)"
  by (simp add: cropImage_def)

lemma cropImage_config:
  "enabled (configs w r) \<Longrightarrow> file_at w inputPath = Some img \<Longrightarrow>
   configs (snd (cropImage w inputPath outputPath r)) = (configs w)(r := clamped (configs w r) img)
   \<and> sharp_calls (snd (cropImage w inputPath outputPath r)) =
       sharp_calls w @ [\<lparr>call_input = inputPath, call_image = img,
                          call_region = region_of (clamped (configs w r) img)\<rparr>]"
  by (cases img)
    (auto simp: cropImage_def clamped_def region_of_def write_file_def Let_def split: sum.splits)

lemma cropImage_inside:
  assumes "enabled (configs w r)" and "file_at w inputPath = Some img"
    and "origin_inside (configs w r) img"
    and "path_resolve (cwd w) outputPath \<noteq> path_resolve (cwd w) inputPath"
    and "\<not> unwritable w (path_resolve (cwd w) outputPath)"
  shows "cropImage w inputPath outputPath r =
     (Inr outputPath,
      write_file
        (w\<lparr>configs := (configs w)(r := clamped (configs w r) img),
           sharp_calls := sharp_calls w @ [\<lparr>call_input = inputPath, call_image = img,
                          call_region = region_of (clamped (configs w r) img)\<rparr>]\<rparr>)
        outputPath
        (min (crop_width (configs w r)) (fst img - crop_x (configs w r)),
         min (crop_height (configs w r)) (snd img - crop_y (configs w r))))"
  using assms
  by (cases img)
    (auto simp: cropImage_def clamped_def origin_inside_def sharp_extract_toFile_def
       region_of_def Let_def min_def)

lemma clamped_frame:
  "enabled (clamped c img) = enabled c \<and> crop_x (clamped c img) = crop_x c
   \<and> crop_y (clamped c img) = crop_y c \<and> outputSuffix (clamped c img) = outputSuffix c"
  by (simp add: clamped_def)

lemma clamped_size:
  "crop_width (clamped c img) = (if crop_x c + crop_width c > fst img then fst img - crop_x c
                                  else crop_width c)
   \<and> crop_height (clamped c img) = (if crop_y c + crop_height c > snd img then snd img - crop_y c
                                      else crop_height c)"
  by (simp add: clamped_def)

lemma cropImage_frame:
  "enabled (configs (snd (cropImage w inputPath outputPath r)) r') = enabled (configs w r')
   \<and> crop_x (configs (snd (cropImage w inputPath outputPath r)) r') = crop_x (configs w r')
   \<and> crop_y (configs (snd (cropImage w inputPath outputPath r)) r') = crop_y (configs w r')
   \<and> outputSuffix (configs (snd (cropImage w inputPath outputPath r)) r')
       = outputSuffix (configs w r')
   \<and> (r' \<noteq> r \<longrightarrow> configs (snd (cropImage w inputPath outputPath r)) r' = configs w r')"
proof (cases "enabled (configs w r)")
  case False
  then show ?thesis
    by (simp add: cropImage_disabled)
next
  case True
  show ?thesis
  proof (cases "file_at w inputPath")
    case None
    with True show ?thesis
      by (simp add: cropImage_missing)
  next
    case (Some img)
    with True show ?thesis
      by (simp add: cropImage_config clamped_frame)
  qed
qed

lemma shrinking_append:
  "shrinking c (xs @ ys) = shrinking c xs @ shrinking (foldl clamped c xs) ys"
  by (induction xs arbitrary: c) simp_all

text \<open>What one call of \<^verbatim>\<open>cropImage\<close> adds to the log and does to its configuration.\<close>

lemma cropImage_step:
  "\<exists>new. sharp_calls (snd (cropImage w inputPath outputPath r)) = sharp_calls w @ new
     \<and> map call_region new = map region_of (shrinking (configs w r) (map call_image new))
     \<and> configs (snd (cropImage w inputPath outputPath r)) r
         = foldl clamped (configs w r) (map call_image new)
     \<and> (\<forall>c\<in>set new. call_input c = inputPath)"
proof (cases "enabled (configs w r)")
  case False
  then have "snd (cropImage w inputPath outputPath r) = w"
    by (simp add: cropImage_disabled)
  then show ?thesis
    by simp
next
  case True
  show ?thesis
  proof (cases "file_at w inputPath")
    case None
    with True have "snd (cropImage w inputPath outputPath r) = w"
      by (simp add: cropImage_missing)
    then show ?thesis
      by simp
  next
    case (Some img)
    with True cropImage_config [of w r inputPath img outputPath] show ?thesis
      by (intro exI [of _ "[\<lparr>call_input = inputPath, call_image = img,
                          call_region = region_of (clamped (configs w r) img)\<rparr>]"]) simp
  qed
qed

lemma crop_loop_calls:
  "\<exists>new. sharp_calls (snd (crop_loop w dir r acc tfs)) = sharp_calls w @ new
     \<and> map call_region new = map region_of (shrinking (configs w r) (map call_image new))
     \<and> configs (snd (crop_loop w dir r acc tfs)) r
         = foldl clamped (configs w r) (map call_image new)
     \<and> (\<forall>c\<in>set new. \<exists>tf\<in>set tfs. call_input c = path_join dir (''jupiter-'' @ tf @ ''.png''))"
proof (induction tfs arbitrary: w acc)
  case Nil
  then show ?case by simp
next
  case (Cons t rest)
  let ?in = "path_join dir (''jupiter-'' @ t @ ''.png'')"
  let ?out = "path_join dir (''jupiter-'' @ t @ suffix_of (configs w r) @ ''.png'')"
  show ?case
  proof (cases "file_at w ?in = None")
    case True
    then have "crop_loop w dir r acc (t # rest) = crop_loop w dir r acc rest"
      by (simp add: Let_def)
    with Cons.IH [of w acc] show ?thesis
      by auto
  next
    case False
    then obtain img where f: "file_at w ?in = Some img"
      by auto
    obtain res w1 where c: "cropImage w ?in ?out r = (res, w1)"
      by force
    from cropImage_step [of w ?in ?out r] c obtain n1 where
      n1: "sharp_calls w1 = sharp_calls w @ n1"
        "map call_region n1 = map region_of (shrinking (configs w r) (map call_image n1))"
        "configs w1 r = foldl clamped (configs w r) (map call_image n1)"
        "\<forall>c\<in>set n1. call_input c = ?in"
      by auto
    show ?thesis
    proof (cases res)
      case (Inl err)
      with f c have "crop_loop w dir r acc (t # rest) = (Inl err, w1)"
        by (simp add: Let_def)
      with n1 show ?thesis
        by (intro exI [of _ n1]) auto
    next
      case (Inr croppedPath)
      with f c have l: "crop_loop w dir r acc (t # rest)
          = crop_loop w1 dir r (acc @ [croppedPath]) rest"
        by (simp add: Let_def)
      from Cons.IH [of w1 "acc @ [croppedPath]"] obtain n2 where
        n2: "sharp_calls (snd (crop_loop w1 dir r (acc @ [croppedPath]) rest)) = sharp_calls w1 @ n2"
          "map call_region n2 = map region_of (shrinking (configs w1 r) (map call_image n2))"
          "configs (snd (crop_loop w1 dir r (acc @ [croppedPath]) rest)) r
             = foldl clamped (configs w1 r) (map call_image n2)"
          "\<forall>c\<in>set n2. \<exists>tf\<in>set rest. call_input c = path_join dir (''jupiter-'' @ tf @ ''.png'')"
        by blast
      have "map call_region (n1 @ n2)
          = map region_of (shrinking (configs w r) (map call_image (n1 @ n2)))"
        using n1(2,3) n2(2) by (simp add: shrinking_append)
      moreover have "configs (snd (crop_loop w dir r acc (t # rest))) r
          = foldl clamped (configs w r) (map call_image (n1 @ n2))"
        using l n1(3) n2(3) by simp
      moreover have "sharp_calls (snd (crop_loop w dir r acc (t # rest))) = sharp_calls w @ n1 @ n2"
        using l n1(1) n2(1) by simp
      moreover have "\<forall>c\<in>set (n1 @ n2). \<exists>tf\<in>set (t # rest).
          call_input c = path_join dir (''jupiter-'' @ tf @ ''.png'')"
        using n1(4) n2(4) by auto
      ultimately show ?thesis
        by (intro exI [of _ "n1 @ n2"]) simp
    qed
  qed
qed

lemma crop_timeframes_calls:
  "\<exists>new. sharp_calls (snd (cropTimeframeScreenshots w dir tfs r)) = sharp_calls w @ new
     \<and> map call_region new = map region_of (shrinking (configs w r) (map call_image new))
     \<and> configs (snd (cropTimeframeScreenshots w dir tfs r)) r
         = foldl clamped (configs w r) (map call_image new)
     \<and> (\<forall>c\<in>set new. \<exists>tf\<in>set tfs. call_input c = path_join dir (''jupiter-'' @ tf @ ''.png''))"
proof (cases "enabled (configs w r)")
  case True
  then show ?thesis
    using crop_loop_calls [of w dir r "[]" tfs] by (simp add: cropTimeframeScreenshots_def)
next
  case False
  then show ?thesis
    by (simp add: cropTimeframeScreenshots_def)
qed

text \<open>
  Claim C6, as stated, fails. A rectangle that starts to the right of the image
  (\<open>x = 2000\<close> on an image 1920 wide) exceeds its bounds; the adjustment gives it the width
  \<open>-80\<close>, the extraction raises and no output file is written. A disabled configuration
  with an exceeding rectangle returns the input path and writes no output file either.
\<close>

theorem C6_crop_outside_or_disabled:
  "file_at outside_world ''screenshots/jupiter-1h.png'' = Some (1920, 1080)
   \<and> crop_x (configs outside_world 0) + crop_width (configs outside_world 0) > 1920
   \<and> fst (cropImage outside_world ''screenshots/jupiter-1h.png''
             ''screenshots/jupiter-1h-cropped.png'' 0) = Inl ''Expected integer for extract''
   \<and> crop_width (configs (snd (cropImage outside_world ''screenshots/jupiter-1h.png''
             ''screenshots/jupiter-1h-cropped.png'' 0)) 0) = - 80
   \<and> file_at (snd (cropImage outside_world ''screenshots/jupiter-1h.png''
             ''screenshots/jupiter-1h-cropped.png'' 0)) ''screenshots/jupiter-1h-cropped.png'' = None
   \<and> file_at disabled_world ''screenshots/jupiter-5m.png'' = Some (1200, 600)
   \<and> crop_x (configs disabled_world 0) + crop_width (configs disabled_world 0) > 1200
   \<and> fst (cropImage disabled_world ''screenshots/jupiter-5m.png''
             ''screenshots/jupiter-5m-cropped.png'' 0) = Inr ''screenshots/jupiter-5m.png''
   \<and> file_at (snd (cropImage disabled_world ''screenshots/jupiter-5m.png''
             ''screenshots/jupiter-5m-cropped.png'' 0)) ''screenshots/jupiter-5m-cropped.png'' = None"
  by (simp add: cropImage_def outside_world_def disabled_world_def two_shots_def file_at_def
        path_resolve_def DEFAULT_JUPITER_CROP_value_def sharp_extract_toFile_def Let_def)

text \<open>
  Claim C6, amended. When cropping is enabled, the input image exists, the rectangle
  starts inside the image with a positive size, the output path does not resolve to the
  input file and a file can be written there, \<^verbatim>\<open>cropImage\<close> does not raise: it cuts the
  width down to the image width minus \<open>x\<close> and the height down to the image height minus
  \<open>y\<close>, so that the rectangle lies within the image, returns the output path and
  writes there a raster of the size of the adjusted rectangle.
\<close>

theorem C6_crop_clamps_inside:
  assumes "enabled (configs w r)" and "file_at w inputPath = Some (imageWidth, imageHeight)"
    and "origin_inside (configs w r) (imageWidth, imageHeight)"
    and "path_resolve (cwd w) outputPath \<noteq> path_resolve (cwd w) inputPath"
    and "\<not> unwritable w (path_resolve (cwd w) outputPath)"
  shows "\<exists>w'. cropImage w inputPath outputPath r = (Inr outputPath, w')
     \<and> crop_width (configs w' r) = min (crop_width (configs w r)) (imageWidth - crop_x (configs w r))
     \<and> crop_height (configs w' r) = min (crop_height (configs w r)) (imageHeight - crop_y (configs w r))
     \<and> 0 \<le> crop_x (configs w' r) \<and> 0 \<le> crop_y (configs w' r)
     \<and> 0 < crop_width (configs w' r) \<and> 0 < crop_height (configs w' r)
     \<and> crop_x (configs w' r) + crop_width (configs w' r) \<le> imageWidth
     \<and> crop_y (configs w' r) + crop_height (configs w' r) \<le> imageHeight
     \<and> file_at w' outputPath = Some (crop_width (configs w' r), crop_height (configs w' r))"
proof -
  let ?c = "configs w r"
  let ?w' = "write_file
        (w\<lparr>configs := (configs w)(r := clamped ?c (imageWidth, imageHeight)),
           sharp_calls := sharp_calls w @ [\<lparr>call_input = inputPath,
                          call_image = (imageWidth, imageHeight),
                          call_region = region_of (clamped ?c (imageWidth, imageHeight))\<rparr>]\<rparr>)
        outputPath
        (min (crop_width ?c) (imageWidth - crop_x ?c), min (crop_height ?c) (imageHeight - crop_y ?c))"
  have "cropImage w inputPath outputPath r = (Inr outputPath, ?w')"
    using cropImage_inside [OF assms] by simp
  moreover have "crop_width (configs ?w' r) = min (crop_width ?c) (imageWidth - crop_x ?c)"
    "crop_height (configs ?w' r) = min (crop_height ?c) (imageHeight - crop_y ?c)"
    "0 \<le> crop_x (configs ?w' r)" "0 \<le> crop_y (configs ?w' r)"
    "0 < crop_width (configs ?w' r)" "0 < crop_height (configs ?w' r)"
    "crop_x (configs ?w' r) + crop_width (configs ?w' r) \<le> imageWidth"
    "crop_y (configs ?w' r) + crop_height (configs ?w' r) \<le> imageHeight"
    "file_at ?w' outputPath = Some (crop_width (configs ?w' r), crop_height (configs ?w' r))"
    using assms(3)
    by (auto simp: clamped_def min_def write_file_def file_at_def origin_inside_def)
  ultimately show ?thesis
    by blast
qed

theorem C6_crop_clamps_inside_witness:
  "\<exists>w'. cropImage two_shots ''screenshots/jupiter-5m.png'' ''screenshots/jupiter-5m-cropped.png'' 0
         = (Inr ''screenshots/jupiter-5m-cropped.png'', w')
     \<and> crop_width (configs w' 0) = 1200 \<and> crop_height (configs w' 0) = 500
     \<and> file_at w' ''screenshots/jupiter-5m-cropped.png'' = Some (1200, 500)"
proof -
  have a: "enabled (configs two_shots 0)"
    by (simp add: two_shots_def DEFAULT_JUPITER_CROP_value_def)
  have b: "file_at two_shots ''screenshots/jupiter-5m.png'' = Some (1200, 600)"
    by (simp add: two_shots_def file_at_def path_resolve_def)
  have c: "origin_inside (configs two_shots 0) (1200, 600)"
    by (simp add: two_shots_def DEFAULT_JUPITER_CROP_value_def origin_inside_def)
  have d: "path_resolve (cwd two_shots) ''screenshots/jupiter-5m-cropped.png''
      \<noteq> path_resolve (cwd two_shots) ''screenshots/jupiter-5m.png''"
    by (simp add: two_shots_def path_resolve_def)
  have e: "\<not> unwritable two_shots (path_resolve (cwd two_shots) ''screenshots/jupiter-5m-cropped.png'')"
    by (simp add: two_shots_def path_resolve_def)
  have f: "crop_width (configs two_shots 0) = 1450 \<and> crop_height (configs two_shots 0) = 550
      \<and> crop_x (configs two_shots 0) = 0 \<and> crop_y (configs two_shots 0) = 100"
    by (simp add: two_shots_def DEFAULT_JUPITER_CROP_value_def)
  from C6_crop_clamps_inside [OF a b c d e] f
  show ?thesis
    by auto
qed

text \<open>
  Claim C10. A call of \<^verbatim>\<open>cropImage\<close> on an enabled configuration and an input image that
  exists overwrites the width and the height of the configuration object it was given with
  the adjusted values, whatever the extraction does afterwards; no call changes the fields
  \<^verbatim>\<open>enabled\<close>, \<^verbatim>\<open>x\<close>, \<^verbatim>\<open>y\<close> and \<^verbatim>\<open>outputSuffix\<close> of any configuration, nor any field of
  another configuration. \<^verbatim>\<open>cropTimeframeScreenshots\<close> hands the same object to every call:
  for every list of timeframes, each extraction it asks of the image library reads the
  screenshot of a requested timeframe and uses the rectangle adjusted to the images of all
  extractions before it and then to its own, not the configured one adjusted to its own
  image; and the object is left adjusted to all of them.
\<close>

theorem C10_crop_mutates_shared_config:
  "(enabled (configs w r) \<and> file_at w inputPath = Some img \<longrightarrow>
      crop_width (configs (snd (cropImage w inputPath outputPath r)) r)
           = (if crop_x (configs w r) + crop_width (configs w r) > fst img
              then fst img - crop_x (configs w r) else crop_width (configs w r))
      \<and> crop_height (configs (snd (cropImage w inputPath outputPath r)) r)
           = (if crop_y (configs w r) + crop_height (configs w r) > snd img
              then snd img - crop_y (configs w r) else crop_height (configs w r)))
   \<and> enabled (configs (snd (cropImage w inputPath outputPath r)) r') = enabled (configs w r')
   \<and> crop_x (configs (snd (cropImage w inputPath outputPath r)) r') = crop_x (configs w r')
   \<and> crop_y (configs (snd (cropImage w inputPath outputPath r)) r') = crop_y (configs w r')
   \<and> outputSuffix (configs (snd (cropImage w inputPath outputPath r)) r')
       = outputSuffix (configs w r')
   \<and> (r' \<noteq> r \<longrightarrow> configs (snd (cropImage w inputPath outputPath r)) r' = configs w r')
   \<and> (\<exists>new. sharp_calls (snd (cropTimeframeScreenshots w dir tfs r)) = sharp_calls w @ new
        \<and> map call_region new = map region_of (shrinking (configs w r) (map call_image new))
        \<and> configs (snd (cropTimeframeScreenshots w dir tfs r)) r
            = foldl clamped (configs w r) (map call_image new)
        \<and> (\<forall>c\<in>set new. \<exists>tf\<in>set tfs.
              call_input c = path_join dir (''jupiter-'' @ tf @ ''.png'')))"
proof -
  have "enabled (configs w r) \<and> file_at w inputPath = Some img \<longrightarrow>
      crop_width (configs (snd (cropImage w inputPath outputPath r)) r)
           = (if crop_x (configs w r) + crop_width (configs w r) > fst img
              then fst img - crop_x (configs w r) else crop_width (configs w r))
      \<and> crop_height (configs (snd (cropImage w inputPath outputPath r)) r)
           = (if crop_y (configs w r) + crop_height (configs w r) > snd img
              then snd img - crop_y (configs w r) else crop_height (configs w r))"
    using cropImage_config [of w r inputPath img outputPath] clamped_size [of "configs w r" img]
    by simp
  with cropImage_frame [of w inputPath outputPath r r'] crop_timeframes_calls [of w dir tfs r]
  show ?thesis
    by (intro conjI) blast+
qed

theorem C10_crop_mutates_shared_config_witness:
  "crop_width (configs two_shots 0) = 1450 \<and> crop_height (configs two_shots 0) = 550
   \<and> crop_width (configs (snd (cropImage two_shots ''screenshots/jupiter-5m.png''
        ''screenshots/jupiter-5m.png'' 0)) 0) = 1200
   \<and> crop_height (configs (snd (cropImage two_shots ''screenshots/jupiter-5m.png''
        ''screenshots/jupiter-5m.png'' 0)) 0) = 500
   \<and> fst (cropImage two_shots ''screenshots/jupiter-5m.png'' ''screenshots/jupiter-5m.png'' 0)
        = Inl ''Cannot use same file for input and output''
   \<and> region_of (clamped (configs two_shots 0) (1920, 1080)) = (0, 100, 1450, 550)
   \<and> sharp_calls (snd (cropTimeframeScreenshots two_shots ''screenshots'' [''5m'', ''4h'', ''1h''] 0))
        = [\<lparr>call_input = ''screenshots/jupiter-5m.png'', call_image = (1200, 600),
            call_region = (0, 100, 1200, 500)\<rparr>,
           \<lparr>call_input = ''screenshots/jupiter-1h.png'', call_image = (1920, 1080),
            call_region = (0, 100, 1200, 500)\<rparr>]
   \<and> region_of (configs (snd (cropTimeframeScreenshots two_shots ''screenshots''
        [''5m'', ''4h'', ''1h''] 0)) 0) = (0, 100, 1200, 500)"
proof -
  have c: "configs two_shots 0 = DEFAULT_JUPITER_CROP_value"
    by (simp add: two_shots_def)
  have en: "enabled (configs two_shots 0)"
    by (simp add: c DEFAULT_JUPITER_CROP_value_def)
  have f: "file_at two_shots ''screenshots/jupiter-5m.png'' = Some (1200, 600)"
    by (simp add: two_shots_def file_at_def path_resolve_def)
  have same: "fst (cropImage two_shots ''screenshots/jupiter-5m.png''
      ''screenshots/jupiter-5m.png'' 0) = Inl ''Cannot use same file for input and output''"
    by (simp add: cropImage_def two_shots_def file_at_def path_resolve_def
          DEFAULT_JUPITER_CROP_value_def sharp_extract_toFile_def Let_def)
  have calls: "sharp_calls (snd (cropTimeframeScreenshots two_shots ''screenshots''
        [''5m'', ''4h'', ''1h''] 0))
      = [\<lparr>call_input = ''screenshots/jupiter-5m.png'', call_image = (1200, 600),
            call_region = (0, 100, 1200, 500)\<rparr>,
           \<lparr>call_input = ''screenshots/jupiter-1h.png'', call_image = (1920, 1080),
            call_region = (0, 100, 1200, 500)\<rparr>]"
    by (simp add: cropTimeframeScreenshots_def cropImage_def two_shots_def file_at_def
          write_file_def path_resolve_def path_join_def path_normalize_def suffix_of_def
          DEFAULT_JUPITER_CROP_value_def sharp_extract_toFile_def Let_def)
  note t = C10_crop_mutates_shared_config [of two_shots 0 "''screenshots/jupiter-5m.png''"
      "(1200, 600)" "''screenshots/jupiter-5m.png''" 0 "''screenshots''" "[''5m'', ''4h'', ''1h'']"]
  from t en f have size: "crop_width (configs (snd (cropImage two_shots ''screenshots/jupiter-5m.png''
        ''screenshots/jupiter-5m.png'' 0)) 0) = 1200
     \<and> crop_height (configs (snd (cropImage two_shots ''screenshots/jupiter-5m.png''
        ''screenshots/jupiter-5m.png'' 0)) 0) = 500"
    by (simp add: c DEFAULT_JUPITER_CROP_value_def)
  from t obtain new where
    n: "sharp_calls (snd (cropTimeframeScreenshots two_shots ''screenshots''
          [''5m'', ''4h'', ''1h''] 0)) = sharp_calls two_shots @ new"
      "configs (snd (cropTimeframeScreenshots two_shots ''screenshots''
          [''5m'', ''4h'', ''1h''] 0)) 0 = foldl clamped (configs two_shots 0) (map call_image new)"
    by blast
  have "sharp_calls two_shots = []"
    by (simp add: two_shots_def)
  with n(1) calls have "new = [\<lparr>call_input = ''screenshots/jupiter-5m.png'', call_image = (1200, 600),
            call_region = (0, 100, 1200, 500)\<rparr>,
           \<lparr>call_input = ''screenshots/jupiter-1h.png'', call_image = (1920, 1080),
            call_region = (0, 100, 1200, 500)\<rparr>]"
    by simp
  with n(2) have final: "region_of (configs (snd (cropTimeframeScreenshots two_shots ''screenshots''
        [''5m'', ''4h'', ''1h''] 0)) 0) = (0, 100, 1200, 500)"
    by (simp add: c clamped_def region_of_def DEFAULT_JUPITER_CROP_value_def)
  have alone: "region_of (clamped (configs two_shots 0) (1920, 1080)) = (0, 100, 1450, 550)"
    by (simp add: c clamped_def region_of_def DEFAULT_JUPITER_CROP_value_def)
  have start: "crop_width (configs two_shots 0) = 1450 \<and> crop_height (configs two_shots 0) = 550"
    by (simp add: c DEFAULT_JUPITER_CROP_value_def)
  from start size same alone calls final show ?thesis
    by (intro conjI) (erule conjE | assumption)+
qed

section \<open>Properties of the vision pipeline\<close>

lemma sample_matches:
  "jsonMatch analysis_reply = Some analysis_object"
  "jsonMatch second_object = Some second_object"
  "jsonMatch decision_object = Some decision_object"
  "jsonMatch synthesis_object = Some synthesis_object"
  "analysis_reply \<noteq> []" "second_object \<noteq> []" "decision_object \<noteq> []"
  "synthesis_object \<noteq> []" "verdict_arguments \<noteq> []"
  by (simp_all add: jsonMatch_def analysis_reply_def analysis_object_def analysis_inner_def
        second_object_def decision_object_def synthesis_object_def verdict_arguments_def)

lemma sample_parses:
  "sample_parse analysis_object = Inr analysis_value"
  "sample_parse second_object = Inr second_value"
  "sample_parse decision_object = Inr decision_value"
  "sample_parse synthesis_object = Inr synthesis_value"
  "sample_parse verdict_arguments = Inr verdict_value"
  by (simp_all add: sample_parse_def analysis_object_def analysis_inner_def second_object_def
        decision_object_def synthesis_object_def verdict_arguments_def)

lemma smooth_env_fields:
  "apiKeySet smooth_env"
  "fileExists smooth_env p = (p = ''screenshots/jupiter-5m.png'')"
  "chartReply smooth_env p tf = Content (Some analysis_reply)"
  "decisionReply smooth_env analyses = Content (Some decision_object)"
  "comprehensiveReply smooth_env analyses decision = Content (Some synthesis_object)"
  "verdictReply smooth_env analyses decision synthesis = FunctionCall (Some verdict_arguments)"
  "parse smooth_env = sample_parse"
  "conv smooth_env = sample_conversions"
  "outputDirExists smooth_env = False"
  "mkdir_fails smooth_env = None"
  "json_write_fails smooth_env = None"
  "text_write_fails smooth_env = None"
  "sounds smooth_env = sounding_machine"
  by (simp_all add: smooth_env_def)

text \<open>The stages on the sample replies.\<close>

lemma sample_analysis:
  assumes "fileExists env imagePath" and "chartReply env imagePath tf = Content (Some analysis_reply)"
    and "parse env = sample_parse"
  shows "analyzeChartImage env imagePath tf = Inr analysis_value"
  using assms
  by (simp add: analyzeChartImage_def parse_content_def sample_matches sample_parses
        analysis_value_def)


lemma unreadable_analysis:
  assumes "fileExists env imagePath"
    and "chartReply env imagePath tf = Content (Some ''I cannot read this chart.'')"
  shows "analyzeChartImage env imagePath tf = Inl ''No JSON found in response''"
proof -
  have "jsonMatch ''I cannot read this chart.'' = None"
    by (simp add: jsonMatch_def)
  with assms show ?thesis
    by (simp add: analyzeChartImage_def parse_content_def)
qed

lemma sample_joinable: "joinable analysis_value" "joinable second_value"
  by (simp_all add: joinable_def analysis_value_def second_value_def)

lemma sample_decision:
  assumes "decisionReply env analyses = Content (Some decision_object)"
    and "parse env = sample_parse" and "list_all joinable analyses"
  shows "makeMultiTimeframeDecision env analyses =
     (Inr (JObj (put_field ''timeframes'' (JArr analyses) (spread decision_value))),
      [DecisionCall])"
  using assms
  by (simp add: makeMultiTimeframeDecision_def parse_content_def sample_matches sample_parses
        decision_value_def Let_def)

lemma sample_synthesis:
  assumes "comprehensiveReply env analyses decision = Content (Some synthesis_object)"
    and "parse env = sample_parse"
  shows "generateComprehensiveAnalysis env analyses decision =
     (Inr synthesis_value, [ComprehensiveCall])"
  using assms
  by (simp add: generateComprehensiveAnalysis_def parse_content_def sample_matches sample_parses)

lemma sample_prompt: "verdict_prompt synthesis_value = Inr ()"
  by (simp add: verdict_prompt_def synthesis_value_def)

lemma sample_verdict:
  assumes "verdictReply env analyses decision synthesis_value = FunctionCall (Some verdict_arguments)"
    and "parse env = sample_parse"
  shows "generateFinalVerdict env analyses decision synthesis_value =
     (Inr verdict_value, [VerdictCall])"
  using assms
  by (simp add: generateFinalVerdict_def sample_prompt sample_matches sample_parses
        verdict_value_def)

text \<open>The report on the sample values is written without a \<^verbatim>\<open>TypeError\<close>.\<close>

lemma sample_reported:
  "analysis_reported cv analysis_value" "analysis_reported cv second_value"
  "decision_reported cv (JObj (put_field ''timeframes'' (JArr analyses) (spread decision_value)))"
  "comprehensive_reported synthesis_value" "verdict_reported cv verdict_value"
  by (simp_all add: analysis_reported_def decision_reported_def comprehensive_reported_def
        verdict_reported_def is_string_def is_number_def is_array_def nullish_def listed_def
        analysis_value_def second_value_def decision_value_def synthesis_value_def
        verdict_value_def)

lemma sample_saved:
  assumes "mkdir_fails env = None" and "json_write_fails env = None"
    and "text_write_fails env = None"
    and "list_all (analysis_reported (conv env)) analyses"
  shows "save_results env withJson withText analyses
           (JObj (put_field ''timeframes'' (JArr analyses) (spread decision_value)))
           synthesis_value verdict_value = None"
  using assms
  by (simp add: save_results_def saveAnalysisToJson_def saveAnalysisToText_def
        ensure_directory_def sample_reported)

text \<open>The alert for the sample verdict on the two machines.\<close>

lemma sounding_alert:
  "playTradingAlert cv sounding_machine (opt_chain (Some verdict_value) ''action'')
      (opt_chain (Some verdict_value) ''confidence'') = Finished None"
  by (simp add: playTradingAlert_def playTradingSound_def playCustomSound_def
        playSystemSound_def sounding_machine_def SOUND_FILES_def property_key_def
        verdict_value_def high_confidence_def)

lemma bare_linux_alert:
  "playTradingAlert cv bare_linux (opt_chain (Some verdict_value) ''action'')
      (opt_chain (Some verdict_value) ''confidence'') = ProcessEnded ''spawn paplay ENOENT''"
  by (simp add: playTradingAlert_def playTradingSound_def playCustomSound_def
        playSystemSound_def generateBeep_def bare_linux_def SOUND_FILES_def property_key_def
        verdict_value_def high_confidence_def)

lemma sample_sounded: "truthy verdict_value" "soundEffects one_timeframe \<noteq> Some False"
  by (simp_all add: verdict_value_def one_timeframe_def)


lemma run_to_end:
  assumes "apiKeySet env" and "imageFiles env config \<noteq> []" and "analyses_of env config \<noteq> []"
    and "makeMultiTimeframeDecision env (analyses_of env config) = (Inr decision, cs1)"
    and "generateComprehensiveAnalysis env (analyses_of env config) decision = (Inr synthesis, cs2)"
    and "generateFinalVerdict env (analyses_of env config) decision synthesis = (Inr verdict, cs3)"
    and "(if truthy verdict \<and> soundEffects config \<noteq> Some False
          then playTradingAlert (conv env) (sounds env) (opt_chain (Some verdict) ''action'')
                 (opt_chain (Some verdict) ''confidence'')
          else Finished None) = alert"
  shows "executeVisionAnalysis env config =
     (case alert of
        ProcessEnded err \<Rightarrow>
          \<lparr>returned = None, uncaught = Some err,
           calls = map (\<lambda>(imagePath, tf). ChartCall tf) (imageFiles env config) @ cs1 @ cs2 @ cs3\<rparr>
      | Finished pending \<Rightarrow>
          (case save_results env (saveJson config) (saveText config) (analyses_of env config)
                  decision synthesis verdict of
             Some msg \<Rightarrow>
               \<lparr>returned = Some (failure_result msg), uncaught = pending,
                calls = map (\<lambda>(imagePath, tf). ChartCall tf) (imageFiles env config)
                          @ cs1 @ cs2 @ cs3\<rparr>
           | None \<Rightarrow>
               \<lparr>returned = Some \<lparr>va_success = True, tradingDecision = Some decision,
                    individualAnalyses = analyses_of env config,
                    comprehensiveAnalysis = Some synthesis,
                    finalVerdict = Some verdict, va_error = None\<rparr>,
                uncaught = pending,
                calls = map (\<lambda>(imagePath, tf). ChartCall tf) (imageFiles env config)
                          @ cs1 @ cs2 @ cs3\<rparr>))"
  using assms by (simp add: executeVisionAnalysis_def Let_def)

text \<open>The runs on one screenshot.\<close>

lemma one_image:
  assumes "fileExists env = (\<lambda>p. p = ''screenshots/jupiter-5m.png'')"
  shows "imageFiles env one_timeframe = [(''screenshots/jupiter-5m.png'', ''5m'')]"
    and "imageFiles env quiet_timeframe = [(''screenshots/jupiter-5m.png'', ''5m'')]"
  using assms
  by (simp_all add: imageFiles_def one_timeframe_def quiet_timeframe_def chart_image_def
        path_join_def path_normalize_def)

lemma one_analysis:
  assumes "fileExists env = (\<lambda>p. p = ''screenshots/jupiter-5m.png'')"
    and "chartReply env = (\<lambda>p tf. Content (Some analysis_reply))"
    and "parse env = sample_parse"
  shows "analyses_of env one_timeframe = [analysis_value]"
    and "analyses_of env quiet_timeframe = [analysis_value]"
  using assms one_image [OF assms(1)]
    sample_analysis [of env "''screenshots/jupiter-5m.png''" "''5m''"]
  by (simp_all add: analyses_of_def)

lemma smooth_stages:
  assumes "env = smooth_env\<lparr>verdictReply := v, sounds := m\<rparr>"
  shows "apiKeySet env"
    and "imageFiles env one_timeframe = [(''screenshots/jupiter-5m.png'', ''5m'')]"
    and "imageFiles env quiet_timeframe = [(''screenshots/jupiter-5m.png'', ''5m'')]"
    and "analyses_of env one_timeframe = [analysis_value]"
    and "analyses_of env quiet_timeframe = [analysis_value]"
    and "makeMultiTimeframeDecision env [analysis_value] =
           (Inr (JObj (put_field ''timeframes'' (JArr [analysis_value]) (spread decision_value))),
            [DecisionCall])"
    and "generateComprehensiveAnalysis env [analysis_value]
           (JObj (put_field ''timeframes'' (JArr [analysis_value]) (spread decision_value)))
         = (Inr synthesis_value, [ComprehensiveCall])"
proof -
  have f: "fileExists env = (\<lambda>p. p = ''screenshots/jupiter-5m.png'')"
    and c: "chartReply env = (\<lambda>p tf. Content (Some analysis_reply))"
    and p: "parse env = sample_parse"
    unfolding assms by (simp_all add: smooth_env_def)
  show "apiKeySet env"
    unfolding assms by (simp add: smooth_env_def)
  show "imageFiles env one_timeframe = [(''screenshots/jupiter-5m.png'', ''5m'')]"
    "imageFiles env quiet_timeframe = [(''screenshots/jupiter-5m.png'', ''5m'')]"
    by (rule one_image [OF f])+
  show "analyses_of env one_timeframe = [analysis_value]"
    "analyses_of env quiet_timeframe = [analysis_value]"
    by (rule one_analysis [OF f c p])+
  have "decisionReply env [analysis_value] = Content (Some decision_object)"
    unfolding assms by (simp add: smooth_env_def)
  then show "makeMultiTimeframeDecision env [analysis_value] =
           (Inr (JObj (put_field ''timeframes'' (JArr [analysis_value]) (spread decision_value))),
            [DecisionCall])"
    using p by (intro sample_decision) (simp_all add: sample_joinable)
  have "comprehensiveReply env [analysis_value]
           (JObj (put_field ''timeframes'' (JArr [analysis_value]) (spread decision_value)))
      = Content (Some synthesis_object)"
    unfolding assms by (simp add: smooth_env_def)
  then show "generateComprehensiveAnalysis env [analysis_value]
           (JObj (put_field ''timeframes'' (JArr [analysis_value]) (spread decision_value)))
         = (Inr synthesis_value, [ComprehensiveCall])"
    using p by (rule sample_synthesis)
qed

lemma smooth_run:
  "executeVisionAnalysis smooth_env one_timeframe =
     \<lparr>returned = Some \<lparr>va_success = True,
          tradingDecision = Some (JObj (put_field ''timeframes'' (JArr [analysis_value])
                                          (spread decision_value))),
          individualAnalyses = [analysis_value],
          comprehensiveAnalysis = Some synthesis_value,
          finalVerdict = Some verdict_value, va_error = None\<rparr>,
      uncaught = None,
      calls = [ChartCall ''5m'', DecisionCall, ComprehensiveCall, VerdictCall]\<rparr>"
proof -
  have e: "smooth_env = smooth_env\<lparr>verdictReply := verdictReply smooth_env,
      sounds := sounds smooth_env\<rparr>"
    by simp
  note st = smooth_stages [OF e]
  have v: "generateFinalVerdict smooth_env (analyses_of smooth_env one_timeframe)
      (JObj (put_field ''timeframes'' (JArr [analysis_value]) (spread decision_value)))
      synthesis_value = (Inr verdict_value, [VerdictCall])"
    by (rule sample_verdict) (simp_all add: smooth_env_fields)
  have a: "(if truthy verdict_value \<and> soundEffects one_timeframe \<noteq> Some False
          then playTradingAlert (conv smooth_env) (sounds smooth_env)
                 (opt_chain (Some verdict_value) ''action'')
                 (opt_chain (Some verdict_value) ''confidence'')
          else Finished None) = Finished None"
    by (simp add: smooth_env_fields sounding_alert)
  have s: "save_results smooth_env (saveJson one_timeframe) (saveText one_timeframe)
      (analyses_of smooth_env one_timeframe)
      (JObj (put_field ''timeframes'' (JArr (analyses_of smooth_env one_timeframe))
         (spread decision_value))) synthesis_value verdict_value = None"
    by (rule sample_saved) (simp_all add: smooth_env_fields st(4) sample_reported)
  have "executeVisionAnalysis smooth_env one_timeframe =
     (case Finished None of
        ProcessEnded err \<Rightarrow>
          \<lparr>returned = None, uncaught = Some err,
           calls = map (\<lambda>(imagePath, tf). ChartCall tf) (imageFiles smooth_env one_timeframe)
                     @ [DecisionCall] @ [ComprehensiveCall] @ [VerdictCall]\<rparr>
      | Finished pending \<Rightarrow>
          (case save_results smooth_env (saveJson one_timeframe) (saveText one_timeframe)
                  (analyses_of smooth_env one_timeframe)
                  (JObj (put_field ''timeframes'' (JArr [analysis_value]) (spread decision_value)))
                  synthesis_value verdict_value of
             Some msg \<Rightarrow>
               \<lparr>returned = Some (failure_result msg), uncaught = pending,
                calls = map (\<lambda>(imagePath, tf). ChartCall tf) (imageFiles smooth_env one_timeframe)
                          @ [DecisionCall] @ [ComprehensiveCall] @ [VerdictCall]\<rparr>
           | None \<Rightarrow>
               \<lparr>returned = Some \<lparr>va_success = True,
                    tradingDecision = Some (JObj (put_field ''timeframes'' (JArr [analysis_value])
                                                    (spread decision_value))),
                    individualAnalyses = analyses_of smooth_env one_timeframe,
                    comprehensiveAnalysis = Some synthesis_value,
                    finalVerdict = Some verdict_value, va_error = None\<rparr>,
                uncaught = pending,
                calls = map (\<lambda>(imagePath, tf). ChartCall tf) (imageFiles smooth_env one_timeframe)
                          @ [DecisionCall] @ [ComprehensiveCall] @ [VerdictCall]\<rparr>))"
    using st v a by (intro run_to_end) simp_all
  then show ?thesis
    using s by (simp add: st)
qed

lemma bare_linux_run:
  "executeVisionAnalysis bare_linux_env one_timeframe =
     \<lparr>returned = None, uncaught = Some ''spawn paplay ENOENT'',
      calls = [ChartCall ''5m'', DecisionCall, ComprehensiveCall, VerdictCall]\<rparr>"
proof -
  have e: "bare_linux_env = smooth_env\<lparr>verdictReply := verdictReply smooth_env,
      sounds := bare_linux\<rparr>"
    by (simp add: bare_linux_env_def)
  note st = smooth_stages [OF e]
  have v: "generateFinalVerdict bare_linux_env (analyses_of bare_linux_env one_timeframe)
      (JObj (put_field ''timeframes'' (JArr [analysis_value]) (spread decision_value)))
      synthesis_value = (Inr verdict_value, [VerdictCall])"
    by (rule sample_verdict) (simp_all add: bare_linux_env_def smooth_env_fields)
  have a: "(if truthy verdict_value \<and> soundEffects one_timeframe \<noteq> Some False
          then playTradingAlert (conv bare_linux_env) (sounds bare_linux_env)
                 (opt_chain (Some verdict_value) ''action'')
                 (opt_chain (Some verdict_value) ''confidence'')
          else Finished None) = ProcessEnded ''spawn paplay ENOENT''"
    using bare_linux_alert [of "conv bare_linux_env"]
    by (simp add: bare_linux_env_def sample_sounded)
  have "executeVisionAnalysis bare_linux_env one_timeframe =
     (case ProcessEnded ''spawn paplay ENOENT'' of
        ProcessEnded err \<Rightarrow>
          \<lparr>returned = None, uncaught = Some err,
           calls = map (\<lambda>(imagePath, tf). ChartCall tf) (imageFiles bare_linux_env one_timeframe)
                     @ [DecisionCall] @ [ComprehensiveCall] @ [VerdictCall]\<rparr>
      | Finished pending \<Rightarrow>
          (case save_results bare_linux_env (saveJson one_timeframe) (saveText one_timeframe)
                  (analyses_of bare_linux_env one_timeframe)
                  (JObj (put_field ''timeframes'' (JArr [analysis_value]) (spread decision_value)))
                  synthesis_value verdict_value of
             Some msg \<Rightarrow>
               \<lparr>returned = Some (failure_result msg), uncaught = pending,
                calls = map (\<lambda>(imagePath, tf). ChartCall tf) (imageFiles bare_linux_env one_timeframe)
                          @ [DecisionCall] @ [ComprehensiveCall] @ [VerdictCall]\<rparr>
           | None \<Rightarrow>
               \<lparr>returned = Some \<lparr>va_success = True,
                    tradingDecision = Some (JObj (put_field ''timeframes'' (JArr [analysis_value])
                                                    (spread decision_value))),
                    individualAnalyses = analyses_of bare_linux_env one_timeframe,
                    comprehensiveAnalysis = Some synthesis_value,
                    finalVerdict = Some verdict_value, va_error = None\<rparr>,
                uncaught = pending,
                calls = map (\<lambda>(imagePath, tf). ChartCall tf) (imageFiles bare_linux_env one_timeframe)
                          @ [DecisionCall] @ [ComprehensiveCall] @ [VerdictCall]\<rparr>))"
    using st v a by (intro run_to_end) simp_all
  then show ?thesis
    by (simp add: st)
qed














lemma no_analyses_run:
  assumes "analyses_of env config = []"
  shows "\<exists>msg cs. executeVisionAnalysis env config = failed_run msg cs
     \<and> DecisionCall \<notin> set cs \<and> ComprehensiveCall \<notin> set cs \<and> VerdictCall \<notin> set cs
     \<and> (apiKeySet env \<and> imageFiles env config \<noteq> [] \<longrightarrow> msg = ''No successful chart analyses'')"
proof (cases "apiKeySet env \<and> imageFiles env config \<noteq> []")
  case False
  then have "executeVisionAnalysis env config =
        failed_run ''OPENAI_API_KEY environment variable is required'' []
      \<or> executeVisionAnalysis env config =
        failed_run ''No chart images found. Run chart capture first.'' []"
    by (auto simp: executeVisionAnalysis_def)
  with False show ?thesis
    by fastforce
next
  case True
  let ?cs = "map (\<lambda>(imagePath, tf). ChartCall tf) (imageFiles env config)"
  from True assms have "executeVisionAnalysis env config =
      failed_run ''No successful chart analyses'' ?cs"
    by (simp add: executeVisionAnalysis_def Let_def)
  moreover have "DecisionCall \<notin> set ?cs \<and> ComprehensiveCall \<notin> set ?cs \<and> VerdictCall \<notin> set ?cs"
    by auto
  ultimately show ?thesis
    by blast
qed


lemma silent_beep_alert:
  assumes "generateBeep m = None"
  shows "playTradingAlert cv m action confidence = Finished None"
proof -
  have "playTradingSound cv m action = None"
    using assms by (simp add: playTradingSound_def)
  then show ?thesis
    by (simp add: playTradingAlert_def)
qed

text \<open>
  Claim C4. When no analysis of a timeframe succeeds, \<^verbatim>\<open>executeVisionAnalysis\<close> returns a
  failure, with \<open>success = False\<close> and an error message, and the run has made no request for
  a cross-timeframe decision (nor any later request); with a key and at least one image the
  message is that of the check on the analyses, \<^verbatim>\<open>No successful chart analyses\<close>.
\<close>

theorem C4_no_analysis_no_decision_call:
  assumes "analyses_of env config = []"
  shows "\<exists>msg. returned (executeVisionAnalysis env config) = Some (failure_result msg)
     \<and> \<not> va_success (failure_result msg)
     \<and> va_error (failure_result msg) = Some msg
     \<and> uncaught (executeVisionAnalysis env config) = None
     \<and> DecisionCall \<notin> set (calls (executeVisionAnalysis env config))
     \<and> ComprehensiveCall \<notin> set (calls (executeVisionAnalysis env config))
     \<and> VerdictCall \<notin> set (calls (executeVisionAnalysis env config))
     \<and> (apiKeySet env \<and> imageFiles env config \<noteq> [] \<longrightarrow> msg = ''No successful chart analyses'')"
proof -
  obtain msg cs where run: "executeVisionAnalysis env config = failed_run msg cs"
    and cs: "DecisionCall \<notin> set cs" "ComprehensiveCall \<notin> set cs" "VerdictCall \<notin> set cs"
    and guard: "apiKeySet env \<and> imageFiles env config \<noteq> [] \<longrightarrow> msg = ''No successful chart analyses''"
    using no_analyses_run [OF assms] by blast
  have "returned (executeVisionAnalysis env config) = Some (failure_result msg)"
    "uncaught (executeVisionAnalysis env config) = None"
    "calls (executeVisionAnalysis env config) = cs"
    using run by (simp_all add: failed_run_def)
  moreover have "\<not> va_success (failure_result msg)" "va_error (failure_result msg) = Some msg"
    by (simp_all add: failure_result_def)
  ultimately show ?thesis
    using cs guard by auto
qed

lemma unreadable_analyses: "analyses_of unreadable_env one_timeframe = []"
proof -
  have "analyzeChartImage unreadable_env ''screenshots/jupiter-5m.png'' ''5m''
      = Inl ''No JSON found in response''"
    by (rule unreadable_analysis) (simp_all add: unreadable_env_def smooth_env_def)
  moreover have "imageFiles unreadable_env one_timeframe = [(''screenshots/jupiter-5m.png'', ''5m'')]"
    by (rule one_image) (simp add: unreadable_env_def smooth_env_def)
  ultimately show ?thesis
    by (simp add: analyses_of_def List.map_filter_simps)
qed

theorem C4_no_analysis_no_decision_call_witness:
  "returned (executeVisionAnalysis unreadable_env one_timeframe)
     = Some (failure_result ''No successful chart analyses'')
   \<and> DecisionCall \<notin> set (calls (executeVisionAnalysis unreadable_env one_timeframe))"
proof -
  have "apiKeySet unreadable_env \<and> imageFiles unreadable_env one_timeframe \<noteq> []"
    using one_image(1) [of unreadable_env] by (simp add: unreadable_env_def smooth_env_def)
  with C4_no_analysis_no_decision_call [OF unreadable_analyses] show ?thesis
    by auto
qed










lemma config_without_sound:
  "imageFiles env (config\<lparr>soundEffects := v\<rparr>) = imageFiles env config"
  "analyses_of env (config\<lparr>soundEffects := v\<rparr>) = analyses_of env config"
  by (simp_all add: analyses_of_def imageFiles_def)

lemma silent_beep_harmless:
  assumes "generateBeep (sounds env) = None"
  shows "executeVisionAnalysis env config
           = executeVisionAnalysis env (config\<lparr>soundEffects := Some False\<rparr>)"
  using silent_beep_alert [OF assms]
  by (simp add: executeVisionAnalysis_def config_without_sound Let_def
        split: prod.splits sum.splits)

text \<open>The comparison of the confidence converts its operand: the string \<^verbatim>\<open>85\<close> counts as
  a high confidence.\<close>

lemma string_confidence:
  "high_confidence sample_conversions (Some (JStr ''85''))"
  "high_confidence sample_conversions (Some (JNum 80))"
  "\<not> high_confidence sample_conversions (Some (JStr ''high''))"
  "\<not> high_confidence sample_conversions None"
  by (simp_all add: high_confidence_def sample_conversions_def)

text \<open>
  Claim C9 meets a defect of \<^verbatim>\<open>generateBeep\<close>. On a Linux machine without the sound files
  and without the program \<^verbatim>\<open>paplay\<close>, with a verdict of confidence 85, the custom sound
  and the system sound fail and are caught, the fallback spawns \<^verbatim>\<open>paplay\<close> without a
  listener for its \<^verbatim>\<open>'error'\<close> event, and the process ends by the uncaught exception while
  \<^verbatim>\<open>playTradingAlert\<close> waits on its timer: \<^verbatim>\<open>executeVisionAnalysis\<close> does not return. The
  same run on a machine whose system sound plays returns the verdict.
\<close>

theorem C9_missing_player_ends_process:
  "executeVisionAnalysis bare_linux_env one_timeframe =
     \<lparr>returned = None, uncaught = Some ''spawn paplay ENOENT'',
      calls = [ChartCall ''5m'', DecisionCall, ComprehensiveCall, VerdictCall]\<rparr>
   \<and> returned (executeVisionAnalysis smooth_env one_timeframe) =
       Some \<lparr>va_success = True,
            tradingDecision = Some (JObj (put_field ''timeframes'' (JArr [analysis_value])
                                            (spread decision_value))),
            individualAnalyses = [analysis_value],
            comprehensiveAnalysis = Some synthesis_value,
            finalVerdict = Some verdict_value, va_error = None\<rparr>"
  using bare_linux_run smooth_run by (simp add: bare_linux_env_def)

end
